theory Spec2Isabelle
  imports Complex_Main
begin

section \<open>Values and errors of the Python program\<close>

text \<open>
  The analyzer of \<^verbatim>\<open>traffic_flow.py\<close> keeps whatever \<^verbatim>\<open>json.load\<close> returned in its
  fields, so the lane list and the target frame size are dynamically typed. They are
  modelled as JSON documents: \<open>JArr\<close> stands for a Python list or tuple (both unpack and
  index alike, and \<^verbatim>\<open>json.dump\<close> writes both as arrays), \<open>JObj\<close> for a dict with string
  keys in insertion order, \<open>JInt\<close> for an integer. JSON numbers with a fraction or an
  exponent are outside the model.
\<close>

datatype json =
    JNull
  | JBool bool
  | JInt int
  | JStr string
  | JArr "json list"
  | JObj "(string \<times> json) list"

datatype error =
  TypeError | ValueError | KeyError | IndexError | ZeroDivisionError | OSError | Cv2Error

definition ebind :: "error + 'a \<Rightarrow> ('a \<Rightarrow> error + 'b) \<Rightarrow> error + 'b" where
  "ebind r f = (case r of Inl e \<Rightarrow> Inl e | Inr v \<Rightarrow> f v)"

text \<open>Iterating a value, as \<^verbatim>\<open>for ... in v\<close> and tuple unpacking do.\<close>

fun py_iter :: "json \<Rightarrow> error + json list" where
  "py_iter (JArr xs) = Inr xs"
| "py_iter (JStr s) = Inr (map (\<lambda>c. JStr [c]) s)"
| "py_iter (JObj kvs) = Inr (map (\<lambda>kv. JStr (fst kv)) kvs)"
| "py_iter JNull = Inl TypeError"
| "py_iter (JBool b) = Inl TypeError"
| "py_iter (JInt i) = Inl TypeError"

text \<open>\<^verbatim>\<open>a, b = v\<close>: the value is iterated completely before anything is assigned.\<close>

definition unpack2 :: "json \<Rightarrow> error + (json \<times> json)" where
  "unpack2 v =
     (case py_iter v of
        Inl e \<Rightarrow> Inl e
      | Inr xs \<Rightarrow> (case xs of [a, b] \<Rightarrow> Inr (a, b) | _ \<Rightarrow> Inl ValueError))"

text \<open>\<^verbatim>\<open>v[i]\<close> for a literal index \<open>i \<ge> 0\<close>; a dict loaded from JSON has no integer key.\<close>

fun getitem_int :: "json \<Rightarrow> nat \<Rightarrow> error + json" where
  "getitem_int (JArr xs) i = (if i < length xs then Inr (xs ! i) else Inl IndexError)"
| "getitem_int (JStr s) i = (if i < length s then Inr (JStr [s ! i]) else Inl IndexError)"
| "getitem_int (JObj kvs) i = Inl KeyError"
| "getitem_int JNull i = Inl TypeError"
| "getitem_int (JBool b) i = Inl TypeError"
| "getitem_int (JInt n) i = Inl TypeError"

text \<open>
  \<^verbatim>\<open>v["key"]\<close> for a string key: the value when \<open>v\<close> is a dict that has the key;
  \<open>None\<close> stands for the exception raised otherwise (\<^verbatim>\<open>KeyError\<close> for a dict without
  the key, \<^verbatim>\<open>TypeError\<close> for any other value). For a dict, \<^verbatim>\<open>"key" in v\<close> holds exactly
  when the result is not \<open>None\<close>.
\<close>

fun dict_get :: "json \<Rightarrow> string \<Rightarrow> json option" where
  "dict_get (JObj kvs) k = map_of kvs k"
| "dict_get (JArr xs) k = None"
| "dict_get (JStr s) k = None"
| "dict_get JNull k = None"
| "dict_get (JBool b) k = None"
| "dict_get (JInt n) k = None"

text \<open>
  A call that mutates an object either returns or raises; in both cases the object keeps
  the mutations made so far, so both outcomes carry the state.
\<close>

datatype 'a outcome = Done 'a | Raised error 'a

fun state_of :: "'a outcome \<Rightarrow> 'a" where
  "state_of (Done s) = s"
| "state_of (Raised e s) = s"

text \<open>
  The operand of an ordering comparison with an \<^verbatim>\<open>int\<close>: integers, and booleans (which
  are integers in Python); anything else makes the comparison raise \<^verbatim>\<open>TypeError\<close>.
\<close>

fun as_number :: "json \<Rightarrow> error + int" where
  "as_number (JInt i) = Inr i"
| "as_number (JBool b) = Inr (if b then 1 else 0)"
| "as_number JNull = Inl TypeError"
| "as_number (JStr s) = Inl TypeError"
| "as_number (JArr xs) = Inl TypeError"
| "as_number (JObj kvs) = Inl TypeError"

section \<open>The analyzer's state\<close>

type_synonym ident = string

record crossing =
  VehicleID :: ident
  Lane :: nat
  Frame :: nat
  Timestamp :: string

record analyzer =
  lanes :: json
  target_width :: json
  target_height :: json
  lane_counts :: "nat \<rightharpoonup> nat"
  counted_ids :: "ident set"
  output_data :: "crossing list"
  frame_width :: int
  frame_height :: int
  fps :: rat

text \<open>A lane as the source writes it: \<^verbatim>\<open>[(x1, y1), (x2, y2)]\<close>.\<close>

definition lane_region :: "int \<times> int \<Rightarrow> int \<times> int \<Rightarrow> json" where
  "lane_region p1 p2 =
     JArr [JArr [JInt (fst p1), JInt (snd p1)], JArr [JInt (fst p2), JInt (snd p2)]]"

section \<open>Lane membership: \<^verbatim>\<open>is_vehicle_in_lane\<close>\<close>

text \<open>
  The condition of line 100,
  \<^verbatim>\<open>p1[0] <= cx <= p2[0] and p1[1] >= cy >= p2[1]\<close>,
  evaluated left to right with Python's short circuit: an operand is read (and can raise)
  only when every comparison before it was true.
\<close>

definition lane_test :: "json \<Rightarrow> json \<Rightarrow> int \<Rightarrow> int \<Rightarrow> error + bool" where
  "lane_test p1 p2 cx cy =
     ebind (ebind (getitem_int p1 0) as_number) (\<lambda>x1.
       if \<not> x1 \<le> cx then Inr False
       else ebind (ebind (getitem_int p2 0) as_number) (\<lambda>x2.
         if \<not> cx \<le> x2 then Inr False
         else ebind (ebind (getitem_int p1 1) as_number) (\<lambda>y1.
           if \<not> y1 \<ge> cy then Inr False
           else ebind (ebind (getitem_int p2 1) as_number) (\<lambda>y2.
             Inr (cy \<ge> y2)))))"

text \<open>The loop over \<^verbatim>\<open>enumerate(self.lanes, start=1)\<close>, from lane number \<open>lane_num\<close> on.\<close>

fun lanes_loop :: "json list \<Rightarrow> nat \<Rightarrow> int \<Rightarrow> int \<Rightarrow> error + nat option" where
  "lanes_loop [] lane_num cx cy = Inr None"
| "lanes_loop (l # ls) lane_num cx cy =
     (case unpack2 l of
        Inl e \<Rightarrow> Inl e
      | Inr (p1, p2) \<Rightarrow>
          (case lane_test p1 p2 cx cy of
             Inl e \<Rightarrow> Inl e
           | Inr hit \<Rightarrow> if hit then Inr (Some lane_num) else lanes_loop ls (Suc lane_num) cx cy))"

definition is_vehicle_in_lane :: "analyzer \<Rightarrow> int \<Rightarrow> int \<Rightarrow> error + nat option" where
  "is_vehicle_in_lane s cx cy =
     (case py_iter (lanes s) of Inl e \<Rightarrow> Inl e | Inr ls \<Rightarrow> lanes_loop ls 1 cx cy)"

section \<open>The lane configuration file\<close>

text \<open>
  The file \<^verbatim>\<open>lane_config.json\<close> as the program sees it: absent
  (\<^verbatim>\<open>os.path.exists\<close> is false), present but such that opening or \<^verbatim>\<open>json.load\<close> raises,
  or present with the document \<^verbatim>\<open>json.load\<close> returns. \<^verbatim>\<open>json.dump\<close> followed by
  \<^verbatim>\<open>json.load\<close> gives back the document written. \<open>output_csv\<close> holds the rows of
  \<^verbatim>\<open>output.csv\<close>, in file order. Opening a file for writing raises \<^verbatim>\<open>OSError\<close> when the
  directory is not writable.
\<close>

datatype disk_file = Absent | Corrupt | Stored json

record world =
  config_file :: disk_file
  output_csv :: "crossing list option"
  writable :: bool

definition config_of :: "analyzer \<Rightarrow> json" where
  "config_of s =
     JObj [(''lanes'', lanes s),
           (''description'', JStr ''Lane coordinates for traffic flow analysis''),
           (''target_frame_size'', JArr [target_width s, target_height s])]"

definition save_lane_config :: "analyzer \<Rightarrow> world \<Rightarrow> world outcome" where
  "save_lane_config s w =
     (if writable w then Done (w\<lparr>config_file := Stored (config_of s)\<rparr>)
      else Raised OSError w)"

text \<open>
  \<^verbatim>\<open>load_lane_config\<close>. Every exception of the \<^verbatim>\<open>try\<close> block is caught and only
  printed, so the fields assigned before it was raised keep their new values. The call
  of \<^verbatim>\<open>save_lane_config\<close> in the \<^verbatim>\<open>else\<close> branch is outside the \<^verbatim>\<open>try\<close>.
\<close>

definition load_lane_config :: "analyzer \<Rightarrow> world \<Rightarrow> (analyzer \<times> world) outcome" where
  "load_lane_config s w =
     (case config_file w of
        Absent \<Rightarrow>
          (case save_lane_config s w of
             Done w' \<Rightarrow> Done (s, w')
           | Raised e w' \<Rightarrow> Raised e (s, w'))
      | Corrupt \<Rightarrow> Done (s, w)
      | Stored config \<Rightarrow>
          (case dict_get config ''lanes'' of
             None \<Rightarrow> Done (s, w)
           | Some l \<Rightarrow>
               (case dict_get config ''target_frame_size'' of
                  None \<Rightarrow> Done (s\<lparr>lanes := l\<rparr>, w)
                | Some target \<Rightarrow>
                    (case unpack2 target of
                       Inl e \<Rightarrow> Done (s\<lparr>lanes := l\<rparr>, w)
                     | Inr (tw, th) \<Rightarrow>
                         Done (s\<lparr>lanes := l, target_width := tw, target_height := th\<rparr>, w)))))"

section \<open>Construction\<close>

definition default_lanes :: json where
  "default_lanes =
     JArr [lane_region (100, 720) (500, 400),
           lane_region (550, 720) (900, 400),
           lane_region (950, 720) (1300, 400)]"

text \<open>The fields as \<^verbatim>\<open>__init__\<close> sets them before it calls \<^verbatim>\<open>load_lane_config\<close>.\<close>

definition new_analyzer :: analyzer where
  "new_analyzer =
     \<lparr>lanes = default_lanes, target_width = JInt 960, target_height = JInt 540,
      lane_counts = [1 \<mapsto> 0, 2 \<mapsto> 0, 3 \<mapsto> 0], counted_ids = {}, output_data = [],
      frame_width = 0, frame_height = 0, fps = 0\<rparr>"

definition init :: "world \<Rightarrow> (analyzer \<times> world) outcome" where
  "init w = load_lane_config new_analyzer w"

section \<open>Floating-point division\<close>

text \<open>
  Python's floats are IEEE 754 doubles. A finite double is the rational number it denotes,
  and \<^verbatim>\<open>a / b\<close> is the exact quotient rounded to the nearest double, a tie going to the
  even significand of 53 bits. The exponent range is not bounded here: overflow to
  infinity and the subnormal numbers are outside the model.
\<close>

function bit_length :: "int \<Rightarrow> nat" where
  "bit_length k = (if k \<le> 0 then 0 else Suc (bit_length (k div 2)))"
  by auto
termination
  by (relation "measure nat") auto

definition pow2 :: "int \<Rightarrow> rat" where
  "pow2 e = (if 0 \<le> e then 2 ^ nat e else 1 / 2 ^ nat (- e))"

text \<open>The exponent of a positive number: \<open>pow2 (ilog2 x) \<le> x < pow2 (ilog2 x + 1)\<close>.\<close>

definition ilog2 :: "rat \<Rightarrow> int" where
  "ilog2 x =
     (if 1 \<le> x then int (bit_length \<lfloor>x\<rfloor>) - 1
      else - int (bit_length (\<lceil>1 / x\<rceil> - 1)))"

definition round_half_even :: "rat \<Rightarrow> int" where
  "round_half_even y =
     (let f = \<lfloor>y\<rfloor>; r = y - of_int f
      in if r < 1 / 2 then f else if 1 / 2 < r then f + 1 else if even f then f else f + 1)"

definition round_double :: "rat \<Rightarrow> rat" where
  "round_double x =
     (if x = 0 then 0
      else
        let a = \<bar>x\<bar>; e = ilog2 a - 52;
            m = of_int (round_half_even (a / pow2 e)) * pow2 e
        in if x < 0 then - m else m)"

text \<open>
  \<^verbatim>\<open>n / f\<close> for an integer \<open>n\<close> and a non-zero float \<open>f\<close>: the integer is converted to a
  float, then the floats are divided.
\<close>

definition float_truediv :: "int \<Rightarrow> rat \<Rightarrow> rat" where
  "float_truediv n f = round_double (round_double (of_int n) / f)"

section \<open>Frame processing\<close>

text \<open>
  The detector and the tracker are external. A frame is given by what they return: the
  detector's boxes with their class names, and the tracker's tracks. Their coordinates
  are floating-point numbers, modelled by the rationals they denote; \<^verbatim>\<open>int(x)\<close>
  truncates towards zero.
\<close>

record detection =
  xyxy :: "rat \<times> rat \<times> rat \<times> rat"
  conf :: rat
  class_name :: string

record track =
  is_confirmed :: bool
  track_id :: ident
  to_ltrb :: "rat \<times> rat \<times> rat \<times> rat"

definition py_int :: "rat \<Rightarrow> int" where
  "py_int x = (if 0 \<le> x then \<lfloor>x\<rfloor> else \<lceil>x\<rceil>)"

text \<open>
  \<^verbatim>\<open>cv2.resize(frame, (self.target_width, self.target_height))\<close> belongs to OpenCV, not to
  the program. What matters of it here is when it raises: it returns for a size of two
  positive integers and raises for every other size, a zero or negative dimension and a
  dimension that is not an integer included. The kind of the exception is not
  distinguished.
\<close>

definition cv2_resize :: "json \<Rightarrow> json \<Rightarrow> error option" where
  "cv2_resize tw th =
     (case tw of
        JInt w \<Rightarrow>
          (case th of
             JInt h \<Rightarrow> if 0 < w \<and> 0 < h then None else Some Cv2Error
           | _ \<Rightarrow> Some Cv2Error)
      | _ \<Rightarrow> Some Cv2Error)"

text \<open>
  \<^verbatim>\<open>a / b\<close> for an integer \<open>a\<close> and a loaded value \<open>b\<close>: the quotient of two integers is
  the exact quotient rounded to the nearest double.
\<close>

definition py_truediv :: "int \<Rightarrow> json \<Rightarrow> error + rat" where
  "py_truediv a b =
     ebind (as_number b)
       (\<lambda>d. if d = 0 then Inl ZeroDivisionError else Inr (round_double (of_int a / of_int d)))"

definition vehicle_classes :: "string list" where
  "vehicle_classes = [''car'', ''truck'', ''bus'', ''motorbike'']"

text \<open>
  Lines 113 to 124: for every box of a vehicle class the two scale factors are computed
  and the box is appended to the detections. The products of the coordinates and the
  factors are computed by the tensor library and go to the tracker only, so the model
  keeps the box and the factors side by side.
\<close>

fun scale_detections ::
  "analyzer \<Rightarrow> detection list \<Rightarrow> error + (detection \<times> rat \<times> rat) list" where
  "scale_detections s [] = Inr []"
| "scale_detections s (d # ds) =
     (if class_name d \<in> set vehicle_classes then
        ebind (py_truediv (frame_width s) (target_width s)) (\<lambda>scale_x.
        ebind (py_truediv (frame_height s) (target_height s)) (\<lambda>scale_y.
        ebind (scale_detections s ds) (\<lambda>rest. Inr ((d, scale_x, scale_y) # rest))))
      else scale_detections s ds)"

text \<open>
  \<^verbatim>\<open>time.strftime("%H:%M:%S", time.gmtime(frame_number / self.fps))\<close>: the division is
  the floating-point one and raises for a rate of zero, \<^verbatim>\<open>gmtime\<close> rounds its argument
  down to whole seconds, and the format prints the time of day with two digits each. The
  quotient is taken to lie in the range of times \<^verbatim>\<open>gmtime\<close> accepts.
\<close>

definition digit2 :: "nat \<Rightarrow> string" where
  "digit2 k = [''0123456789'' ! (k div 10 mod 10), ''0123456789'' ! (k mod 10)]"

definition strftime_HMS :: "int \<Rightarrow> string" where
  "strftime_HMS secs =
     (let d = nat (secs mod 86400)
      in digit2 (d div 3600) @ '':'' @ digit2 (d mod 3600 div 60) @ '':'' @ digit2 (d mod 60))"

definition timestamp_of :: "nat \<Rightarrow> rat \<Rightarrow> error + string" where
  "timestamp_of frame_number f =
     (if f = 0 then Inl ZeroDivisionError
      else Inr (strftime_HMS \<lfloor>float_truediv (int frame_number) f\<rfloor>))"

definition centroid :: "track \<Rightarrow> int \<times> int" where
  "centroid t =
     (case to_ltrb t of (l, tp, r, b) \<Rightarrow>
        let x1 = py_int l; y1 = py_int tp; x2 = py_int r; y2 = py_int b
        in ((x1 + x2) div 2, (y1 + y2) div 2))"

text \<open>
  The body of the loop over the tracks (lines 131 to 154) for one track. The two drawing
  calls that end it (lines 157 to 159) belong to OpenCV and get the integer corners of the
  box; they are taken to return.
\<close>

definition observe :: "analyzer \<Rightarrow> track \<Rightarrow> nat \<Rightarrow> analyzer outcome" where
  "observe s t frame_number =
     (if \<not> is_confirmed t then Done s
      else
        (case centroid t of (cx, cy) \<Rightarrow>
          (case is_vehicle_in_lane s cx cy of
             Inl e \<Rightarrow> Raised e s
           | Inr None \<Rightarrow> Done s
           | Inr (Some lane_num) \<Rightarrow>
               if lane_num \<noteq> 0 \<and> track_id t \<notin> counted_ids s then
                 (case lane_counts s lane_num of
                    None \<Rightarrow> Raised KeyError s
                  | Some c \<Rightarrow>
                      let s1 = s\<lparr>lane_counts := (lane_counts s)(lane_num \<mapsto> c + 1),
                                 counted_ids := insert (track_id t) (counted_ids s)\<rparr>
                      in (case timestamp_of frame_number (fps s) of
                            Inl e \<Rightarrow> Raised e s1
                          | Inr ts \<Rightarrow>
                              Done (s1\<lparr>output_data := output_data s1 @
                                [\<lparr>VehicleID = track_id t, Lane = lane_num,
                                  Frame = frame_number, Timestamp = ts\<rparr>]\<rparr>)))
               else Done s)))"

fun process_tracks :: "analyzer \<Rightarrow> track list \<Rightarrow> nat \<Rightarrow> analyzer outcome" where
  "process_tracks s [] frame_number = Done s"
| "process_tracks s (t # ts) frame_number =
     (case observe s t frame_number of
        Done s' \<Rightarrow> process_tracks s' ts frame_number
      | Raised e s' \<Rightarrow> Raised e s')"

text \<open>
  \<^verbatim>\<open>draw_lanes_and_counts\<close> changes the frame only, but its Python operations can raise:
  the unpacking of every lane, the lookup of the lane's counter, the reads of \<^verbatim>\<open>p1[0]\<close> and
  \<^verbatim>\<open>p1[1] - 10\<close>, and, after the loop, the lookups of the counters 1, 2 and 3. The calls
  of OpenCV in it are taken to return. \<open>None\<close> stands for a normal return.
\<close>

fun draw_loop :: "analyzer \<Rightarrow> json list \<Rightarrow> nat \<Rightarrow> error option" where
  "draw_loop s [] lane_num = None"
| "draw_loop s (l # ls) lane_num =
     (case unpack2 l of
        Inl e \<Rightarrow> Some e
      | Inr (p1, p2) \<Rightarrow>
          (case lane_counts s lane_num of
             None \<Rightarrow> Some KeyError
           | Some c \<Rightarrow>
               (case ebind (getitem_int p1 0) (\<lambda>x. ebind (getitem_int p1 1) as_number) of
                  Inl e \<Rightarrow> Some e
                | Inr y \<Rightarrow> draw_loop s ls (Suc lane_num))))"

definition draw_lanes_and_counts :: "analyzer \<Rightarrow> error option" where
  "draw_lanes_and_counts s =
     (case py_iter (lanes s) of
        Inl e \<Rightarrow> Some e
      | Inr ls \<Rightarrow>
          (case draw_loop s ls 1 of
             Some e \<Rightarrow> Some e
           | None \<Rightarrow>
               if lane_counts s 1 = None \<or> lane_counts s 2 = None \<or> lane_counts s 3 = None
               then Some KeyError else None))"

text \<open>
  \<^verbatim>\<open>process_frame\<close>, for the detections and the tracks the detector and the tracker
  return for the frame: the resize, the scaling of the detections, the loop over the
  tracks, the drawing. The detector and the tracker themselves are external and are taken
  to return.
\<close>

definition process_frame ::
  "analyzer \<Rightarrow> detection list \<Rightarrow> track list \<Rightarrow> nat \<Rightarrow> analyzer outcome" where
  "process_frame s dets tracks frame_number =
     (case cv2_resize (target_width s) (target_height s) of
        Some e \<Rightarrow> Raised e s
      | None \<Rightarrow>
          (case scale_detections s dets of
             Inl e \<Rightarrow> Raised e s
           | Inr detections \<Rightarrow>
               (case process_tracks s tracks frame_number of
                  Raised e s' \<Rightarrow> Raised e s'
                | Done s' \<Rightarrow>
                    (case draw_lanes_and_counts s' of
                       Some e \<Rightarrow> Raised e s'
                     | None \<Rightarrow> Done s'))))"

text \<open>
  \<^verbatim>\<open>process_video\<close>: the video's size, rate and frame count are read, then the frames
  are processed in order, numbered from 1, until one raises. After every thirtieth frame
  the progress is printed, and \<^verbatim>\<open>frame_count / total_frames\<close> raises when the video
  reports a frame count of 0. The elapsed time of that report is taken to be positive. The
  video is taken to open, and the video writer to accept every frame.
\<close>

record video =
  video_width :: int
  video_height :: int
  video_fps :: rat
  video_frame_count :: int
  video_frames :: "(detection list \<times> track list) list"

fun frame_loop ::
  "analyzer \<Rightarrow> int \<Rightarrow> (detection list \<times> track list) list \<Rightarrow> nat \<Rightarrow> analyzer outcome" where
  "frame_loop s total_frames [] frame_count = Done s"
| "frame_loop s total_frames (f # fs) frame_count =
     (case process_frame s (fst f) (snd f) (Suc frame_count) of
        Raised e s' \<Rightarrow> Raised e s'
      | Done s' \<Rightarrow>
          if Suc frame_count mod 30 = 0 \<and> total_frames = 0 then Raised ZeroDivisionError s'
          else frame_loop s' total_frames fs (Suc frame_count))"

definition process_video :: "analyzer \<Rightarrow> video \<Rightarrow> analyzer outcome" where
  "process_video s v =
     frame_loop (s\<lparr>frame_width := video_width v, frame_height := video_height v,
                   fps := video_fps v\<rparr>) (video_frame_count v) (video_frames v) 0"

section \<open>Saving the results\<close>

text \<open>
  \<^verbatim>\<open>save_results\<close> writes one row per entry of \<^verbatim>\<open>output_data\<close>, in list order, to
  \<^verbatim>\<open>output.csv\<close>, prints the counts of lanes 1, 2 and 3, and saves the lane
  configuration.
\<close>

definition save_results :: "analyzer \<Rightarrow> world \<Rightarrow> world outcome" where
  "save_results s w =
     (if \<not> writable w then Raised OSError w
      else
        let w1 = w\<lparr>output_csv := Some (output_data s)\<rparr>
        in if lane_counts s 1 = None \<or> lane_counts s 2 = None \<or> lane_counts s 3 = None
           then Raised KeyError w1
           else save_lane_config s w1)"

section \<open>Sequences of observations\<close>

text \<open>
  A session is a sequence of observations, each a track and the number of the frame it
  was reported in. The analyzer is one mutable object: whatever a call did to it before
  raising stays, so the next observation starts from the state the previous one left.
\<close>

fun run :: "analyzer \<Rightarrow> (track \<times> nat) list \<Rightarrow> analyzer" where
  "run s [] = s"
| "run s (ob # obs) = run (state_of (observe s (fst ob) (snd ob))) obs"

text \<open>
  The number of observations of identity \<open>i\<close> in the sequence at which some lane count
  changed.
\<close>

fun credits :: "ident \<Rightarrow> analyzer \<Rightarrow> (track \<times> nat) list \<Rightarrow> nat" where
  "credits i s [] = 0"
| "credits i s (ob # obs) =
     (let s' = state_of (observe s (fst ob) (snd ob))
      in (if track_id (fst ob) = i \<and> lane_counts s' \<noteq> lane_counts s then 1 else 0)
         + credits i s' obs)"

text \<open>The containment test in the words of the specification.\<close>

definition in_region :: "(int \<times> int) \<times> (int \<times> int) \<Rightarrow> int \<Rightarrow> int \<Rightarrow> bool" where
  "in_region r cx cy =
     (fst (fst r) \<le> cx \<and> cx \<le> fst (snd r) \<and> snd (fst r) \<ge> cy \<and> cy \<ge> snd (snd r))"

definition lanes_of :: "((int \<times> int) \<times> (int \<times> int)) list \<Rightarrow> json" where
  "lanes_of rs = JArr (map (\<lambda>r. lane_region (fst r) (snd r)) rs)"

text \<open>The observations the frames of a video give rise to, in processing order.\<close>

fun observations_of :: "(detection list \<times> track list) list \<Rightarrow> nat \<Rightarrow> (track \<times> nat) list" where
  "observations_of [] frame_count = []"
| "observations_of (f # fs) frame_count =
     map (\<lambda>t. (t, Suc frame_count)) (snd f) @ observations_of fs (Suc frame_count)"

text \<open>
  Every event of the list carries the time-of-day string of its frame at the rate \<open>f\<close>,
  and \<open>f\<close> is not zero if there is an event at all.
\<close>

definition stamped :: "rat \<Rightarrow> crossing list \<Rightarrow> bool" where
  "stamped f es =
     list_all
       (\<lambda>e. f \<noteq> 0 \<and> Timestamp e = strftime_HMS \<lfloor>float_truediv (int (Frame e)) f\<rfloor>) es"

section \<open>Concrete sessions\<close>

definition fresh_world :: world where
  "fresh_world = \<lparr>config_file = Absent, output_csv = None, writable = True\<rparr>"

definition default_config :: json where
  "default_config =
     JObj [(''lanes'', default_lanes),
           (''description'', JStr ''Lane coordinates for traffic flow analysis''),
           (''target_frame_size'', JArr [JInt 960, JInt 540])]"

definition track_A1 :: track where
  "track_A1 = \<lparr>is_confirmed = True, track_id = ''A'', to_ltrb = (280, 480, 320, 520)\<rparr>"

definition track_A2 :: track where
  "track_A2 = \<lparr>is_confirmed = True, track_id = ''A'', to_ltrb = (680, 480, 720, 520)\<rparr>"

definition track_B :: track where
  "track_B = \<lparr>is_confirmed = False, track_id = ''B'', to_ltrb = (280, 480, 320, 520)\<rparr>"

definition track_C :: track where
  "track_C = \<lparr>is_confirmed = True, track_id = ''C'', to_ltrb = (1480, 480, 1520, 520)\<rparr>"

definition track_D :: track where
  "track_D = \<lparr>is_confirmed = True, track_id = ''D'', to_ltrb = (280, 480, 320, 520)\<rparr>"

definition car :: detection where
  "car = \<lparr>xyxy = (200, 300, 240, 340), conf = 9 / 10, class_name = ''car''\<rparr>"

text \<open>The three frames of the specification's end-to-end scenario, at 30 frames a second.\<close>

definition scenario_video :: video where
  "scenario_video =
     \<lparr>video_width = 1280, video_height = 720, video_fps = 30, video_frame_count = 3,
      video_frames = [([], [track_A1]), ([], [track_A2]), ([], [track_B])]\<rparr>"

definition two_vehicle_video :: video where
  "two_vehicle_video =
     \<lparr>video_width = 1280, video_height = 720, video_fps = 30, video_frame_count = 2,
      video_frames = [([], [track_A1]), ([], [track_A1, track_D])]\<rparr>"

definition lane4_video :: video where
  "lane4_video =
     \<lparr>video_width = 1920, video_height = 1080, video_fps = 30, video_frame_count = 1,
      video_frames = [([], [track_C])]\<rparr>"

text \<open>The frame rate 24000/1001 of film material, as the double nearest to it.\<close>

definition film_rate :: rat where
  "film_rate = 6748650790265479 / 281474976710656"

definition one_car_video :: video where
  "one_car_video =
     \<lparr>video_width = 1280, video_height = 720, video_fps = 30, video_frame_count = 1,
      video_frames = [([car], [track_A1])]\<rparr>"

text \<open>Two lanes that overlap between \<open>x = 300\<close> and \<open>x = 500\<close>.\<close>

definition overlapping_lanes :: "((int \<times> int) \<times> (int \<times> int)) list" where
  "overlapping_lanes = [((100, 720), (500, 400)), ((300, 720), (900, 400))]"

text \<open>A video whose frame rate is reported as 0.\<close>

definition zero_fps_video :: video where
  "zero_fps_video =
     \<lparr>video_width = 1280, video_height = 720, video_fps = 0, video_frame_count = 1,
      video_frames = [([], [track_A1])]\<rparr>"

definition four_lanes :: json where
  "four_lanes =
     JArr [lane_region (100, 720) (500, 400),
           lane_region (550, 720) (900, 400),
           lane_region (950, 720) (1300, 400),
           lane_region (1350, 720) (1700, 400)]"

text \<open>A persisted configuration with a fourth lane.\<close>

definition four_lane_world :: world where
  "four_lane_world =
     \<lparr>config_file = Stored (JObj
        [(''lanes'', four_lanes),
         (''description'', JStr ''Lane coordinates for traffic flow analysis''),
         (''target_frame_size'', JArr [JInt 960, JInt 540])]),
      output_csv = None, writable = True\<rparr>"

text \<open>A configuration file that cannot be parsed, and one that holds a JSON array.\<close>

definition corrupt_world :: world where
  "corrupt_world = \<lparr>config_file = Corrupt, output_csv = None, writable = True\<rparr>"

definition no_lanes_world :: world where
  "no_lanes_world =
     \<lparr>config_file = Stored (JArr [JInt 1, JInt 2]), output_csv = None, writable = True\<rparr>"

text \<open>A persisted configuration whose \<^verbatim>\<open>lanes\<close> entry is not a list of regions.\<close>

definition bad_lanes_world :: world where
  "bad_lanes_world =
     \<lparr>config_file = Stored (JObj [(''lanes'', JInt 5)]), output_csv = None, writable = True\<rparr>"

text \<open>A persisted configuration with a reference width of zero.\<close>

definition zero_width_world :: world where
  "zero_width_world =
     \<lparr>config_file = Stored (JObj
        [(''lanes'', default_lanes),
         (''description'', JStr ''Lane coordinates for traffic flow analysis''),
         (''target_frame_size'', JArr [JInt 0, JInt 540])]),
      output_csv = None, writable = True\<rparr>"

section \<open>Lane containment\<close>

lemma unpack2_lane_region:
  "unpack2 (lane_region p1 p2) =
     Inr (JArr [JInt (fst p1), JInt (snd p1)], JArr [JInt (fst p2), JInt (snd p2)])"
  by (simp add: unpack2_def lane_region_def)

lemma lane_test_points:
  "lane_test (JArr [JInt x1, JInt y1]) (JArr [JInt x2, JInt y2]) cx cy =
     Inr (x1 \<le> cx \<and> cx \<le> x2 \<and> y1 \<ge> cy \<and> cy \<ge> y2)"
  by (simp add: lane_test_def ebind_def)

lemma unpack2_pair: "unpack2 (JArr [a, b]) = Inr (a, b)"
  by (simp add: unpack2_def)

text \<open>Timestamps at the frame numbers and rates of the concrete sessions.\<close>

lemma timestamp_of_zero: "timestamp_of n 0 = Inl ZeroDivisionError"
  by (simp add: timestamp_of_def)

lemma float_seconds:
  "\<lfloor>float_truediv 1 30\<rfloor> = 0"
  "\<lfloor>float_truediv 2 30\<rfloor> = 0"
  "\<lfloor>float_truediv 61 30\<rfloor> = 2"
  by code_simp+

lemma timestamp_frame_1: "timestamp_of (Suc 0) 30 = Inr ''00:00:00''"
  by (simp add: timestamp_of_def float_seconds strftime_HMS_def digit2_def)

lemma timestamp_frame_2: "timestamp_of (Suc (Suc 0)) 30 = Inr ''00:00:00''"
  by (simp add: timestamp_of_def float_seconds strftime_HMS_def digit2_def)

lemma timestamp_frame_61: "timestamp_of 61 30 = Inr ''00:00:02''"
  by (simp add: timestamp_of_def float_seconds strftime_HMS_def digit2_def)

text \<open>
  At the film rate the exact quotient of frame 72000 is just below 3003 seconds and the
  floating-point quotient is 3003.
\<close>

lemma float_seconds_film: "\<lfloor>float_truediv 72000 film_rate\<rfloor> = 3003"
  by code_simp

lemma exact_seconds_film: "\<lfloor>72000 / film_rate\<rfloor> = 3002"
  by code_simp

lemma timestamp_film: "timestamp_of 72000 film_rate = Inr ''00:50:03''"
proof -
  have "film_rate \<noteq> 0" by (simp add: film_rate_def)
  then show ?thesis
    by (simp add: timestamp_of_def float_seconds_film strftime_HMS_def digit2_def Let_def)
qed

lemmas session_defs =
  observe_def centroid_def py_int_def is_vehicle_in_lane_def new_analyzer_def default_lanes_def
  unpack2_lane_region lane_test_points timestamp_of_zero timestamp_frame_1 timestamp_frame_2
  process_video_def process_frame_def init_def load_lane_config_def save_lane_config_def
  config_of_def unpack2_pair cv2_resize_def draw_lanes_and_counts_def ebind_def

text \<open>
  Claim C3. For a lane with corners \<open>p1 = (x1, y1)\<close> and \<open>p2 = (x2, y2)\<close>, the condition of
  the membership test holds, and for a configuration of that one lane the test answers
  lane 1, exactly when \<open>x1 \<le> cx \<le> x2\<close> and \<open>y1 \<ge> cy \<ge> y2\<close>, all bounds
  inclusive, and no lane otherwise. For the region \<open>(100,720), (500,400)\<close> the point
  \<open>(300,500)\<close> is inside, \<open>(600,500)\<close> and \<open>(300,750)\<close> are outside.
\<close>

theorem lane_containment:
  "lane_test (JArr [JInt x1, JInt y1]) (JArr [JInt x2, JInt y2]) cx cy =
     Inr (x1 \<le> cx \<and> cx \<le> x2 \<and> y1 \<ge> cy \<and> cy \<ge> y2)
   \<and> is_vehicle_in_lane (s\<lparr>lanes := JArr [lane_region (x1, y1) (x2, y2)]\<rparr>) cx cy =
     Inr (if x1 \<le> cx \<and> cx \<le> x2 \<and> y1 \<ge> cy \<and> cy \<ge> y2 then Some 1 else None)
   \<and> is_vehicle_in_lane (s\<lparr>lanes := JArr [lane_region (100, 720) (500, 400)]\<rparr>) 300 500
       = Inr (Some 1)
   \<and> is_vehicle_in_lane (s\<lparr>lanes := JArr [lane_region (100, 720) (500, 400)]\<rparr>) 600 500
       = Inr None
   \<and> is_vehicle_in_lane (s\<lparr>lanes := JArr [lane_region (100, 720) (500, 400)]\<rparr>) 300 750
       = Inr None"
  by (simp add: is_vehicle_in_lane_def unpack2_lane_region lane_test_points)

section \<open>The first matching lane\<close>

lemma lanes_loop_bounds:
  "lanes_loop ls n cx cy = Inr (Some k) \<Longrightarrow> n \<le> k \<and> k < n + length ls"
proof (induction ls arbitrary: n)
  case Nil
  then show ?case by simp
next
  case (Cons l ls)
  then show ?case
    by (fastforce split: sum.splits prod.splits if_splits)
qed

lemma is_vehicle_in_lane_pos:
  "is_vehicle_in_lane s cx cy = Inr (Some k) \<Longrightarrow> 1 \<le> k"
  by (auto simp: is_vehicle_in_lane_def split: sum.splits dest: lanes_loop_bounds)

lemma lane_test_region:
  "unpack2 (lane_region (fst r) (snd r)) = Inr (p1, p2) \<Longrightarrow>
     lane_test p1 p2 cx cy = Inr (in_region r cx cy)"
  by (auto simp: unpack2_lane_region lane_test_points in_region_def)

lemma lanes_loop_regions:
  "lanes_loop (map (\<lambda>r. lane_region (fst r) (snd r)) rs) n cx cy =
     Inr (let j = length (takeWhile (\<lambda>r. \<not> in_region r cx cy) rs)
          in if j < length rs then Some (n + j) else None)"
proof (induction rs arbitrary: n)
  case Nil
  then show ?case by simp
next
  case (Cons r rs)
  show ?case
    by (simp add: unpack2_lane_region lane_test_points in_region_def Cons.IH Let_def)
qed

lemma first_index_Some:
  "(length (takeWhile (\<lambda>r. \<not> P r) rs) < length rs \<and> k = Suc (length (takeWhile (\<lambda>r. \<not> P r) rs)))
     \<longleftrightarrow> (1 \<le> k \<and> k \<le> length rs \<and> P (rs ! (k - 1)) \<and> (\<forall>j. 1 \<le> j \<and> j < k \<longrightarrow> \<not> P (rs ! (j - 1))))"
  (is "?L \<longleftrightarrow> ?R")
proof
  assume l: ?L
  let ?m = "length (takeWhile (\<lambda>r. \<not> P r) rs)"
  from l have m: "?m < length rs" and k: "k = Suc ?m" by simp_all
  have "\<not> \<not> P (rs ! ?m)" using m by (rule nth_length_takeWhile)
  moreover have "\<not> P (rs ! i)" if "i < ?m" for i
    using that by (metis nth_mem set_takeWhileD takeWhile_nth)
  ultimately show ?R using m k by auto
next
  assume r: ?R
  let ?m = "length (takeWhile (\<lambda>r. \<not> P r) rs)"
  from r have k: "1 \<le> k" "k \<le> length rs" and hit: "P (rs ! (k - 1))"
    and miss: "\<And>j. 1 \<le> j \<Longrightarrow> j < k \<Longrightarrow> \<not> P (rs ! (j - 1))" by auto
  have "k - 1 < length rs" using k by simp
  have le: "?m \<le> k - 1"
  proof (rule ccontr)
    assume "\<not> ?m \<le> k - 1"
    then have "k - 1 < ?m" by simp
    then have "\<not> P (rs ! (k - 1))" by (metis nth_mem set_takeWhileD takeWhile_nth)
    with hit show False by simp
  qed
  then have m: "?m < length rs" using \<open>k - 1 < length rs\<close> by simp
  have "\<not> \<not> P (rs ! ?m)" using m by (rule nth_length_takeWhile)
  then have "P (rs ! ?m)" by simp
  have "\<not> ?m < k - 1"
  proof
    assume "?m < k - 1"
    then have "1 \<le> Suc ?m" "Suc ?m < k" by simp_all
    then have "\<not> P (rs ! (Suc ?m - 1))" by (rule miss)
    with \<open>P (rs ! ?m)\<close> show False by simp
  qed
  with le have "?m = k - 1" by simp
  with m k show ?L by simp
qed

lemma first_index_None:
  "\<not> length (takeWhile (\<lambda>r. \<not> P r) rs) < length rs \<longleftrightarrow> (\<forall>r \<in> set rs. \<not> P r)"
proof -
  have "length (takeWhile (\<lambda>r. \<not> P r) rs) \<le> length rs" by (rule length_takeWhile_le)
  then have "\<not> length (takeWhile (\<lambda>r. \<not> P r) rs) < length rs
      \<longleftrightarrow> length (takeWhile (\<lambda>r. \<not> P r) rs) = length rs" by auto
  also have "\<dots> \<longleftrightarrow> takeWhile (\<lambda>r. \<not> P r) rs = rs"
    by (metis takeWhile_eq_take take_all_iff order_refl)
  also have "\<dots> \<longleftrightarrow> (\<forall>r \<in> set rs. \<not> P r)" by simp
  finally show ?thesis .
qed

lemma is_vehicle_in_lane_regions:
  "lanes s = lanes_of rs \<Longrightarrow>
     is_vehicle_in_lane s cx cy =
       Inr (let j = length (takeWhile (\<lambda>r. \<not> in_region r cx cy) rs)
            in if j < length rs then Some (Suc j) else None)"
  by (simp add: is_vehicle_in_lane_def lanes_of_def lanes_loop_regions Let_def)

lemma observe_other_lanes:
  "is_vehicle_in_lane s (fst (centroid t)) (snd (centroid t)) = Inr (Some k) \<Longrightarrow> j \<noteq> k \<Longrightarrow>
     lane_counts (state_of (observe s t n)) j = lane_counts s j"
  by (auto simp: observe_def Let_def split: prod.splits sum.splits option.splits)

lemma observe_event_lane:
  "is_vehicle_in_lane s (fst (centroid t)) (snd (centroid t)) = Inr (Some k) \<Longrightarrow>
     output_data (state_of (observe s t n)) = output_data s \<or>
     (\<exists>e. Lane e = k \<and> output_data (state_of (observe s t n)) = output_data s @ [e])"
  by (auto simp: observe_def Let_def split: prod.splits sum.splits option.splits)

text \<open>
  Claim C4. For a lane list of well-formed regions, taken in configuration order and
  numbered from 1, the membership test answers lane \<open>k\<close> exactly when region \<open>k\<close> contains
  the centroid and no region before it does, and answers no lane exactly when no region
  contains it. So a centroid inside two or more regions is assigned to the one with the
  lowest number; an observation there changes the count of no other lane, and an event it
  records names that lane.
\<close>

theorem first_match_wins:
  assumes "lanes s = lanes_of rs"
  shows "(is_vehicle_in_lane s cx cy = Inr (Some k) \<longleftrightarrow>
            (1 \<le> k \<and> k \<le> length rs \<and> in_region (rs ! (k - 1)) cx cy \<and>
             (\<forall>j. 1 \<le> j \<and> j < k \<longrightarrow> \<not> in_region (rs ! (j - 1)) cx cy)))
       \<and> (is_vehicle_in_lane s cx cy = Inr None \<longleftrightarrow> (\<forall>r \<in> set rs. \<not> in_region r cx cy))
       \<and> (is_vehicle_in_lane s (fst (centroid t)) (snd (centroid t)) = Inr (Some k) \<longrightarrow>
            (\<forall>j. j \<noteq> k \<longrightarrow> lane_counts (state_of (observe s t n)) j = lane_counts s j) \<and>
            (output_data (state_of (observe s t n)) = output_data s \<or>
             (\<exists>e. Lane e = k \<and> output_data (state_of (observe s t n)) = output_data s @ [e])))"
proof (intro conjI)
  let ?m = "length (takeWhile (\<lambda>r. \<not> in_region r cx cy) rs)"
  have eq: "is_vehicle_in_lane s cx cy = Inr (if ?m < length rs then Some (Suc ?m) else None)"
    using assms by (simp add: is_vehicle_in_lane_regions Let_def)
  have "is_vehicle_in_lane s cx cy = Inr (Some k) \<longleftrightarrow> (?m < length rs \<and> k = Suc ?m)"
    unfolding eq by auto
  also have "\<dots> \<longleftrightarrow> (1 \<le> k \<and> k \<le> length rs \<and> in_region (rs ! (k - 1)) cx cy \<and>
             (\<forall>j. 1 \<le> j \<and> j < k \<longrightarrow> \<not> in_region (rs ! (j - 1)) cx cy))"
    by (rule first_index_Some [where P = "\<lambda>r. in_region r cx cy"])
  finally show "is_vehicle_in_lane s cx cy = Inr (Some k) \<longleftrightarrow>
            (1 \<le> k \<and> k \<le> length rs \<and> in_region (rs ! (k - 1)) cx cy \<and>
             (\<forall>j. 1 \<le> j \<and> j < k \<longrightarrow> \<not> in_region (rs ! (j - 1)) cx cy))" .
  have "is_vehicle_in_lane s cx cy = Inr None \<longleftrightarrow> \<not> ?m < length rs"
    unfolding eq by auto
  also have "\<dots> \<longleftrightarrow> (\<forall>r \<in> set rs. \<not> in_region r cx cy)"
    by (rule first_index_None [where P = "\<lambda>r. in_region r cx cy"])
  finally show "is_vehicle_in_lane s cx cy = Inr None \<longleftrightarrow> (\<forall>r \<in> set rs. \<not> in_region r cx cy)" .
  show "is_vehicle_in_lane s (fst (centroid t)) (snd (centroid t)) = Inr (Some k) \<longrightarrow>
            (\<forall>j. j \<noteq> k \<longrightarrow> lane_counts (state_of (observe s t n)) j = lane_counts s j) \<and>
            (output_data (state_of (observe s t n)) = output_data s \<or>
             (\<exists>e. Lane e = k \<and> output_data (state_of (observe s t n)) = output_data s @ [e]))"
    using observe_other_lanes observe_event_lane by blast
qed

text \<open>The theorem at a centroid inside both of two overlapping lanes.\<close>

theorem first_match_wins_witness:
  "lanes (new_analyzer\<lparr>lanes := lanes_of overlapping_lanes\<rparr>) = lanes_of overlapping_lanes
   \<and> in_region (overlapping_lanes ! 0) 400 500
   \<and> in_region (overlapping_lanes ! 1) 400 500
   \<and> is_vehicle_in_lane (new_analyzer\<lparr>lanes := lanes_of overlapping_lanes\<rparr>) 400 500 = Inr (Some 1)"
proof -
  have l: "lanes (new_analyzer\<lparr>lanes := lanes_of overlapping_lanes\<rparr>) = lanes_of overlapping_lanes"
    by simp
  have r: "in_region (overlapping_lanes ! 0) 400 500" "in_region (overlapping_lanes ! 1) 400 500"
    by (simp_all add: overlapping_lanes_def in_region_def)
  have n: "length overlapping_lanes = 2" by (simp add: overlapping_lanes_def)
  from first_match_wins [OF l, of 400 500 1] r l n show ?thesis by simp
qed

section \<open>Counting an identity once\<close>

lemma observe_counted:
  "track_id t \<in> counted_ids s \<Longrightarrow> state_of (observe s t n) = s"
  by (simp add: observe_def split: prod.splits sum.splits option.splits)

lemma observe_counted_ids_mono:
  "counted_ids s \<subseteq> counted_ids (state_of (observe s t n))"
  by (auto simp: observe_def Let_def split: prod.splits sum.splits option.splits)

lemma observe_change:
  "lane_counts (state_of (observe s t n)) \<noteq> lane_counts s \<Longrightarrow>
     track_id t \<notin> counted_ids s \<and> track_id t \<in> counted_ids (state_of (observe s t n))"
  by (auto simp: observe_def Let_def split: prod.splits sum.splits option.splits if_splits)

lemma run_counted_ids_mono: "counted_ids s \<subseteq> counted_ids (run s obs)"
proof (induction obs arbitrary: s)
  case Nil
  show ?case by simp
next
  case (Cons ob obs)
  have "counted_ids s \<subseteq> counted_ids (state_of (observe s (fst ob) (snd ob)))"
    by (rule observe_counted_ids_mono)
  also have "\<dots> \<subseteq> counted_ids (run (state_of (observe s (fst ob) (snd ob))) obs)"
    by (rule Cons.IH)
  finally show ?case by simp
qed

lemma credits_counted: "i \<in> counted_ids s \<Longrightarrow> credits i s obs = 0"
proof (induction obs arbitrary: s)
  case Nil
  show ?case by simp
next
  case (Cons ob obs)
  let ?s' = "state_of (observe s (fst ob) (snd ob))"
  have "i \<in> counted_ids ?s'" using Cons.prems observe_counted_ids_mono by blast
  then have rest: "credits i ?s' obs = 0" by (rule Cons.IH)
  have "\<not> (track_id (fst ob) = i \<and> lane_counts ?s' \<noteq> lane_counts s)"
    using Cons.prems observe_change by blast
  with rest show ?case by (simp add: Let_def)
qed

lemma credits_le_1: "credits i s obs \<le> 1"
proof (induction obs arbitrary: s)
  case Nil
  show ?case by simp
next
  case (Cons ob obs)
  let ?s' = "state_of (observe s (fst ob) (snd ob))"
  show ?case
  proof (cases "track_id (fst ob) = i \<and> lane_counts ?s' \<noteq> lane_counts s")
    case True
    then have "i \<in> counted_ids ?s'" using observe_change by blast
    then have "credits i ?s' obs = 0" by (rule credits_counted)
    with True show ?thesis by (simp add: Let_def)
  next
    case False
    then show ?thesis using Cons.IH [of ?s'] by (auto simp: Let_def)
  qed
qed

lemma observe_fps: "fps (state_of (observe s t n)) = fps s"
  by (simp add: observe_def Let_def split: prod.splits sum.splits option.splits)

lemma observe_stamped:
  "stamped (fps s) (output_data s) \<Longrightarrow> stamped (fps s) (output_data (state_of (observe s t n)))"
  by (auto simp: observe_def Let_def stamped_def timestamp_of_def
      split: prod.splits sum.splits option.splits if_splits)

lemma observe_appends: "\<exists>es. output_data (state_of (observe s t n)) = output_data s @ es"
  by (simp add: observe_def Let_def split: prod.splits sum.splits option.splits)

lemma run_fps: "fps (run s obs) = fps s"
  by (induction obs arbitrary: s) (simp_all add: observe_fps)

lemma run_stamped:
  "stamped (fps s) (output_data s) \<Longrightarrow> stamped (fps s) (output_data (run s obs))"
proof (induction obs arbitrary: s)
  case Nil
  then show ?case by simp
next
  case (Cons ob obs)
  let ?s' = "state_of (observe s (fst ob) (snd ob))"
  have "stamped (fps ?s') (output_data ?s')"
    using Cons.prems by (simp add: observe_fps observe_stamped)
  then have "stamped (fps ?s') (output_data (run ?s' obs))" by (rule Cons.IH)
  then show ?case by (simp add: observe_fps)
qed

lemma run_appends: "\<exists>es. output_data (run s obs) = output_data s @ es"
proof (induction obs arbitrary: s)
  case Nil
  show ?case by simp
next
  case (Cons ob obs)
  let ?s' = "state_of (observe s (fst ob) (snd ob))"
  obtain es1 where "output_data ?s' = output_data s @ es1" using observe_appends by blast
  moreover obtain es2 where "output_data (run ?s' obs) = output_data ?s' @ es2"
    using Cons.IH by blast
  ultimately show ?case by simp
qed

lemma run_append: "run s (xs @ ys) = run (run s xs) ys"
  by (induction xs arbitrary: s) simp_all

text \<open>The state a frame, or a video, leaves is the state after a prefix of its observations.\<close>

lemma process_tracks_run:
  "\<exists>obs rest. map (\<lambda>t. (t, n)) ts = obs @ rest \<and> state_of (process_tracks s ts n) = run s obs
     \<and> (\<forall>s'. process_tracks s ts n = Done s' \<longrightarrow> rest = [])"
proof (induction ts arbitrary: s)
  case Nil
  show ?case by simp
next
  case (Cons t ts)
  show ?case
  proof (cases "observe s t n")
    case (Done s')
    obtain obs rest where "map (\<lambda>t. (t, n)) ts = obs @ rest"
      "state_of (process_tracks s' ts n) = run s' obs"
      "\<forall>s''. process_tracks s' ts n = Done s'' \<longrightarrow> rest = []" using Cons.IH by blast
    then have "map (\<lambda>t. (t, n)) (t # ts) = ((t, n) # obs) @ rest \<and>
        state_of (process_tracks s (t # ts) n) = run s ((t, n) # obs) \<and>
        (\<forall>s''. process_tracks s (t # ts) n = Done s'' \<longrightarrow> rest = [])"
      using Done by simp
    then show ?thesis by blast
  next
    case (Raised e s')
    then have "map (\<lambda>t. (t, n)) (t # ts) = [(t, n)] @ map (\<lambda>t. (t, n)) ts \<and>
        state_of (process_tracks s (t # ts) n) = run s [(t, n)] \<and>
        (\<forall>s''. process_tracks s (t # ts) n = Done s'' \<longrightarrow> map (\<lambda>t. (t, n)) ts = [])"
      by simp
    then show ?thesis by blast
  qed
qed

lemma process_frame_run:
  "\<exists>obs rest. map (\<lambda>t. (t, n)) tracks = obs @ rest \<and>
     state_of (process_frame s dets tracks n) = run s obs \<and>
     (\<forall>s'. process_frame s dets tracks n = Done s' \<longrightarrow> rest = [])"
proof -
  let ?all = "map (\<lambda>t. (t, n)) tracks"
  have early: ?thesis if "state_of (process_frame s dets tracks n) = s"
    and "\<forall>s'. process_frame s dets tracks n = Done s' \<longrightarrow> tracks = []"
  proof -
    have "?all = [] @ ?all \<and> state_of (process_frame s dets tracks n) = run s [] \<and>
        (\<forall>s'. process_frame s dets tracks n = Done s' \<longrightarrow> ?all = [])"
      using that by simp
    then show ?thesis by blast
  qed
  show ?thesis
  proof (cases "cv2_resize (target_width s) (target_height s)")
    case (Some e)
    then show ?thesis by (intro early) (simp_all add: process_frame_def)
  next
    case None
    show ?thesis
    proof (cases "scale_detections s dets")
      case (Inl e)
      with None show ?thesis by (intro early) (simp_all add: process_frame_def)
    next
      case (Inr ds)
      obtain obs rest where o: "?all = obs @ rest"
        "state_of (process_tracks s tracks n) = run s obs"
        "\<forall>s'. process_tracks s tracks n = Done s' \<longrightarrow> rest = []"
        using process_tracks_run [of n tracks s] by blast
      have "state_of (process_frame s dets tracks n) = state_of (process_tracks s tracks n)"
        using None Inr by (simp add: process_frame_def split: outcome.splits option.splits)
      moreover have "\<forall>s'. process_frame s dets tracks n = Done s' \<longrightarrow>
          (\<exists>s''. process_tracks s tracks n = Done s'')"
        using None Inr by (simp add: process_frame_def split: outcome.splits option.splits)
      ultimately have "?all = obs @ rest \<and> state_of (process_frame s dets tracks n) = run s obs \<and>
          (\<forall>s'. process_frame s dets tracks n = Done s' \<longrightarrow> rest = [])"
        using o by auto
      then show ?thesis by blast
    qed
  qed
qed

lemma frame_loop_run:
  "\<exists>obs rest. observations_of fs k = obs @ rest \<and> state_of (frame_loop s tf fs k) = run s obs"
proof (induction fs arbitrary: s k)
  case Nil
  show ?case by simp
next
  case (Cons f fs)
  obtain obs1 rest1 where f: "map (\<lambda>t. (t, Suc k)) (snd f) = obs1 @ rest1"
    "state_of (process_frame s (fst f) (snd f) (Suc k)) = run s obs1"
    "\<forall>s'. process_frame s (fst f) (snd f) (Suc k) = Done s' \<longrightarrow> rest1 = []"
    using process_frame_run [of "Suc k" "snd f" s "fst f"] by blast
  have o: "observations_of (f # fs) k = obs1 @ (rest1 @ observations_of fs (Suc k))"
    unfolding observations_of.simps f(1) by simp
  have stop: ?case if "state_of (frame_loop s tf (f # fs) k) = run s obs1"
    using that o by blast
  show ?case
  proof (cases "process_frame s (fst f) (snd f) (Suc k)")
    case (Raised e s')
    have "state_of (frame_loop s tf (f # fs) k) = s'"
      unfolding frame_loop.simps Raised by simp
    also have "\<dots> = run s obs1" using f(2) unfolding Raised by simp
    finally show ?thesis by (rule stop)
  next
    case (Done s')
    have rest1: "rest1 = []" using f(3) Done by blast
    have s': "s' = run s obs1" using f(2) Done by simp
    show ?thesis
    proof (cases "Suc k mod 30 = 0 \<and> tf = 0")
      case True
      have "state_of (frame_loop s tf (f # fs) k) = s'"
        unfolding frame_loop.simps Done using True by simp
      then show ?thesis unfolding s' by (rule stop)
    next
      case False
      obtain obs2 rest2 where r: "observations_of fs (Suc k) = obs2 @ rest2"
        "state_of (frame_loop s' tf fs (Suc k)) = run s' obs2"
        using Cons.IH [of "Suc k" s'] by blast
      have o2: "observations_of (f # fs) k = (obs1 @ obs2) @ rest2"
        unfolding o r(1) rest1 by simp
      have "state_of (frame_loop s tf (f # fs) k) = state_of (frame_loop s' tf fs (Suc k))"
        unfolding frame_loop.simps Done using False by auto
      also have "\<dots> = run s' obs2" by (rule r(2))
      also have "\<dots> = run s (obs1 @ obs2)" unfolding s' by (simp add: run_append)
      finally have "state_of (frame_loop s tf (f # fs) k) = run s (obs1 @ obs2)" .
      with o2 show ?thesis by blast
    qed
  qed
qed

lemma process_video_run:
  "\<exists>obs rest. observations_of (video_frames v) 0 = obs @ rest \<and>
     state_of (process_video s v) =
       run (s\<lparr>frame_width := video_width v, frame_height := video_height v,
              fps := video_fps v\<rparr>) obs"
  unfolding process_video_def by (rule frame_loop_run)

text \<open>
  Claim C1. In every sequence of observations, at most one observation of a given identity
  changes a lane count. Once an observation of an identity has changed a lane count, every
  later observation of that identity, whatever happened in between and wherever the
  vehicle now is, leaves the whole state unchanged, and with it the lane counts, the set
  of counted identities and the event log. The same holds for any identity already in the
  set of counted identities.
\<close>

theorem at_most_once_counting:
  "credits i s obs \<le> 1
   \<and> (lane_counts (state_of (observe s t n)) \<noteq> lane_counts s \<longrightarrow>
        (\<forall>later t' n'. track_id t' = track_id t \<longrightarrow>
           state_of (observe (run (state_of (observe s t n)) later) t' n')
             = run (state_of (observe s t n)) later))
   \<and> (track_id t \<in> counted_ids s \<longrightarrow> state_of (observe s t n) = s)
   \<and> (\<exists>seen rest.
         observations_of (video_frames v) 0 = seen @ rest \<and>
         state_of (process_video s v) =
           run (s\<lparr>frame_width := video_width v, frame_height := video_height v,
                  fps := video_fps v\<rparr>) seen \<and>
         credits i (s\<lparr>frame_width := video_width v, frame_height := video_height v,
                  fps := video_fps v\<rparr>) seen \<le> 1)"
proof (intro conjI impI allI)
  show "credits i s obs \<le> 1" by (rule credits_le_1)
next
  show "\<exists>seen rest.
         observations_of (video_frames v) 0 = seen @ rest \<and>
         state_of (process_video s v) =
           run (s\<lparr>frame_width := video_width v, frame_height := video_height v,
                  fps := video_fps v\<rparr>) seen \<and>
         credits i (s\<lparr>frame_width := video_width v, frame_height := video_height v,
                  fps := video_fps v\<rparr>) seen \<le> 1"
    using process_video_run [of v s] credits_le_1 by blast
next
  fix later and t' :: track and n'
  assume ch: "lane_counts (state_of (observe s t n)) \<noteq> lane_counts s"
    and same: "track_id t' = track_id t"
  let ?s1 = "state_of (observe s t n)"
  from ch have "track_id t \<in> counted_ids ?s1" using observe_change by blast
  then have "track_id t' \<in> counted_ids (run ?s1 later)"
    using same run_counted_ids_mono by fastforce
  then show "state_of (observe (run ?s1 later) t' n') = run ?s1 later"
    by (rule observe_counted)
next
  assume "track_id t \<in> counted_ids s"
  then show "state_of (observe s t n) = s" by (rule observe_counted)
qed

text \<open>
  The theorem on a session that sees vehicle A in lane 1, then vehicle D, then vehicle A
  again in lane 2.
\<close>

theorem at_most_once_counting_witness:
  "lane_counts (state_of (observe (new_analyzer\<lparr>fps := 30\<rparr>) track_A1 1))
     \<noteq> lane_counts (new_analyzer\<lparr>fps := 30\<rparr>)
   \<and> track_id track_A2 = track_id track_A1
   \<and> state_of (observe (run (state_of (observe (new_analyzer\<lparr>fps := 30\<rparr>) track_A1 1))
        [(track_D, 2)]) track_A2 3)
      = run (state_of (observe (new_analyzer\<lparr>fps := 30\<rparr>) track_A1 1)) [(track_D, 2)]
   \<and> credits ''A'' (new_analyzer\<lparr>fps := 30\<rparr>) [(track_A1, 1), (track_D, 2), (track_A2, 3)] \<le> 1"
proof -
  let ?s = "new_analyzer\<lparr>fps := 30\<rparr>"
  have "lane_counts (state_of (observe ?s track_A1 1)) 1 = Some 1"
    by (simp add: session_defs track_A1_def)
  moreover have "lane_counts ?s 1 = Some 0" by (simp add: new_analyzer_def)
  ultimately have ch: "lane_counts (state_of (observe ?s track_A1 1)) \<noteq> lane_counts ?s"
    by (metis option.inject zero_neq_one)
  have same: "track_id track_A2 = track_id track_A1" by (simp add: track_A1_def track_A2_def)
  from at_most_once_counting [where i = "''A''" and s = ?s and t = track_A1 and n = 1
      and obs = "[(track_A1, 1), (track_D, 2), (track_A2, 3)]"]
    ch same show ?thesis by blast
qed

section \<open>The first-counting transition\<close>

lemma observe_first_count:
  assumes "is_confirmed t"
    and "is_vehicle_in_lane s (fst (centroid t)) (snd (centroid t)) = Inr (Some k)"
    and "track_id t \<notin> counted_ids s"
    and "lane_counts s k = Some c"
    and "fps s \<noteq> 0"
  shows "observe s t n =
           Done (s\<lparr>lane_counts := (lane_counts s)(k \<mapsto> c + 1),
                   counted_ids := insert (track_id t) (counted_ids s),
                   output_data := output_data s @
                     [\<lparr>VehicleID = track_id t, Lane = k, Frame = n,
                       Timestamp = strftime_HMS \<lfloor>float_truediv (int n) (fps s)\<rfloor>\<rparr>]\<rparr>)"
proof -
  obtain cx cy where c: "centroid t = (cx, cy)" by (cases "centroid t")
  have "k \<noteq> 0" using assms(2) is_vehicle_in_lane_pos by fastforce
  with assms c show ?thesis
    by (simp add: observe_def timestamp_of_def)
qed

lemma init_fresh_world:
  "init fresh_world = Done (new_analyzer, fresh_world\<lparr>config_file := Stored default_config\<rparr>)"
  by (simp add: init_def load_lane_config_def save_lane_config_def fresh_world_def
      config_of_def default_config_def new_analyzer_def)

lemma scenario_run:
  "process_video new_analyzer scenario_video =
     Done (new_analyzer\<lparr>lane_counts := (lane_counts new_analyzer)(1 \<mapsto> 1),
        counted_ids := {''A''},
        output_data := [\<lparr>VehicleID = ''A'', Lane = 1, Frame = 1, Timestamp = ''00:00:00''\<rparr>],
        frame_width := 1280, frame_height := 720, fps := 30\<rparr>)"
  by (simp add: session_defs scenario_video_def track_A1_def track_A2_def track_B_def)

lemma counts_after_A: "(lane_counts new_analyzer)(1 \<mapsto> 1) = [1 \<mapsto> 1, 2 \<mapsto> 0, 3 \<mapsto> 0]"
  by (rule ext) (simp add: new_analyzer_def)

text \<open>
  Claim C2, as amended. When a confirmed track whose integer-midpoint centroid lies in lane
  \<open>k\<close> is observed, its identity is not yet counted, lane \<open>k\<close> has a counter and the frame
  rate is not zero, the observation returns with the count of lane \<open>k\<close> incremented by
  exactly 1, the identity inserted into the counted identities, and exactly one event
  appended, carrying that identity, that lane, that frame number and the time-of-day string
  of the frame. When lane \<open>k\<close> has no counter the observation raises \<^verbatim>\<open>KeyError\<close> and
  changes nothing. The three-frame scenario of the specification, run on a freshly
  constructed analyzer, returns with the counts \<open>{1: 1, 2: 0, 3: 0}\<close> and one recorded
  event.
\<close>

theorem first_counting_transition:
  "(is_confirmed t \<and>
    is_vehicle_in_lane s (fst (centroid t)) (snd (centroid t)) = Inr (Some k) \<and>
    track_id t \<notin> counted_ids s \<and> lane_counts s k = Some c \<and> fps s \<noteq> 0 \<longrightarrow>
      observe s t n =
        Done (s\<lparr>lane_counts := (lane_counts s)(k \<mapsto> c + 1),
                counted_ids := insert (track_id t) (counted_ids s),
                output_data := output_data s @
                  [\<lparr>VehicleID = track_id t, Lane = k, Frame = n,
                    Timestamp = strftime_HMS \<lfloor>float_truediv (int n) (fps s)\<rfloor>\<rparr>]\<rparr>))
   \<and> (is_confirmed t \<and>
      is_vehicle_in_lane s (fst (centroid t)) (snd (centroid t)) = Inr (Some k) \<and>
      track_id t \<notin> counted_ids s \<and> lane_counts s k = None \<longrightarrow>
        observe s t n = Raised KeyError s)
   \<and> fst (state_of (init fresh_world)) = new_analyzer
   \<and> (\<exists>s'. process_video new_analyzer scenario_video = Done s')
   \<and> lane_counts (state_of (process_video new_analyzer scenario_video))
        = [1 \<mapsto> 1, 2 \<mapsto> 0, 3 \<mapsto> 0]
   \<and> counted_ids (state_of (process_video new_analyzer scenario_video)) = {''A''}
   \<and> output_data (state_of (process_video new_analyzer scenario_video))
        = [\<lparr>VehicleID = ''A'', Lane = 1, Frame = 1, Timestamp = ''00:00:00''\<rparr>]"
proof (intro conjI impI)
  assume "is_confirmed t \<and>
    is_vehicle_in_lane s (fst (centroid t)) (snd (centroid t)) = Inr (Some k) \<and>
    track_id t \<notin> counted_ids s \<and> lane_counts s k = Some c \<and> fps s \<noteq> 0"
  then show "observe s t n =
        Done (s\<lparr>lane_counts := (lane_counts s)(k \<mapsto> c + 1),
                counted_ids := insert (track_id t) (counted_ids s),
                output_data := output_data s @
                  [\<lparr>VehicleID = track_id t, Lane = k, Frame = n,
                    Timestamp = strftime_HMS \<lfloor>float_truediv (int n) (fps s)\<rfloor>\<rparr>]\<rparr>)"
    by (simp add: observe_first_count)
next
  assume h: "is_confirmed t \<and>
      is_vehicle_in_lane s (fst (centroid t)) (snd (centroid t)) = Inr (Some k) \<and>
      track_id t \<notin> counted_ids s \<and> lane_counts s k = None"
  obtain cx cy where c: "centroid t = (cx, cy)" by (cases "centroid t")
  have "k \<noteq> 0" using h is_vehicle_in_lane_pos by fastforce
  with h c show "observe s t n = Raised KeyError s" by (simp add: observe_def)
next
  show "fst (state_of (init fresh_world)) = new_analyzer" by (simp add: init_fresh_world)
next
  show "\<exists>s'. process_video new_analyzer scenario_video = Done s'"
    unfolding scenario_run by blast
next
  show "lane_counts (state_of (process_video new_analyzer scenario_video))
        = [1 \<mapsto> 1, 2 \<mapsto> 0, 3 \<mapsto> 0]"
    unfolding scenario_run using counts_after_A by simp
next
  show "counted_ids (state_of (process_video new_analyzer scenario_video)) = {''A''}"
    unfolding scenario_run by simp
next
  show "output_data (state_of (process_video new_analyzer scenario_video))
        = [\<lparr>VehicleID = ''A'', Lane = 1, Frame = 1, Timestamp = ''00:00:00''\<rparr>]"
    unfolding scenario_run by simp
qed

text \<open>The transition at vehicle D, first seen in lane 1 in frame 61 of a 30 fps video.\<close>

theorem first_counting_transition_witness:
  "is_confirmed track_D
   \<and> is_vehicle_in_lane (new_analyzer\<lparr>fps := 30\<rparr>) (fst (centroid track_D)) (snd (centroid track_D))
       = Inr (Some 1)
   \<and> track_id track_D \<notin> counted_ids (new_analyzer\<lparr>fps := 30\<rparr>)
   \<and> lane_counts (new_analyzer\<lparr>fps := 30\<rparr>) 1 = Some 0
   \<and> fps (new_analyzer\<lparr>fps := 30\<rparr>) \<noteq> 0
   \<and> observe (new_analyzer\<lparr>fps := 30\<rparr>) track_D 61 =
        Done (new_analyzer\<lparr>fps := 30, lane_counts := (lane_counts new_analyzer)(1 \<mapsto> 1),
                counted_ids := {''D''},
                output_data :=
                  [\<lparr>VehicleID = ''D'', Lane = 1, Frame = 61, Timestamp = ''00:00:02''\<rparr>]\<rparr>)"
proof -
  let ?s = "new_analyzer\<lparr>fps := 30\<rparr>"
  have h: "is_confirmed track_D \<and>
      is_vehicle_in_lane ?s (fst (centroid track_D)) (snd (centroid track_D)) = Inr (Some 1) \<and>
      track_id track_D \<notin> counted_ids ?s \<and> lane_counts ?s 1 = Some 0 \<and> fps ?s \<noteq> 0"
    by (simp add: session_defs track_D_def)
  have ts: "strftime_HMS \<lfloor>float_truediv (int 61) (fps ?s)\<rfloor> = ''00:00:02''"
    by (simp add: float_seconds strftime_HMS_def digit2_def)
  from first_counting_transition [THEN conjunct1, rule_format, OF h, of 61] h ts
  show ?thesis by (simp add: new_analyzer_def track_D_def)
qed

text \<open>
  The claim as first stated fails in two sessions. With a persisted configuration of four
  lanes, a confirmed, uncounted vehicle in lane 4 makes the frame raise \<^verbatim>\<open>KeyError\<close>:
  nothing is incremented and no event is recorded. With a frame rate of zero, the count of
  lane 1 is incremented and the identity inserted, and then the timestamp raises
  \<^verbatim>\<open>ZeroDivisionError\<close>: no event is appended.
\<close>

theorem first_counting_counterexample:
  "is_confirmed track_C
   \<and> is_vehicle_in_lane (fst (state_of (init four_lane_world)))
        (fst (centroid track_C)) (snd (centroid track_C)) = Inr (Some 4)
   \<and> track_id track_C \<notin> counted_ids (fst (state_of (init four_lane_world)))
   \<and> process_video (fst (state_of (init four_lane_world))) lane4_video =
        Raised KeyError (new_analyzer\<lparr>lanes := four_lanes,
          frame_width := 1920, frame_height := 1080, fps := 30\<rparr>)
   \<and> process_video new_analyzer zero_fps_video =
        Raised ZeroDivisionError (new_analyzer\<lparr>lane_counts := (lane_counts new_analyzer)(1 \<mapsto> 1),
          counted_ids := {''A''}, frame_width := 1280, frame_height := 720\<rparr>)
   \<and> output_data new_analyzer = []"
  by (simp add: session_defs four_lane_world_def four_lanes_def lane4_video_def track_C_def
      zero_fps_video_def track_A1_def)

section \<open>Construction and the lane configuration\<close>

lemma load_lane_config_counts:
  "lane_counts (fst (state_of (load_lane_config s w))) = lane_counts s"
  by (simp add: load_lane_config_def save_lane_config_def
      split: disk_file.splits option.splits sum.splits prod.splits)

lemma init_counts: "lane_counts (fst (state_of (init w))) = [1 \<mapsto> 0, 2 \<mapsto> 0, 3 \<mapsto> 0]"
  by (simp add: init_def load_lane_config_counts) (simp add: new_analyzer_def)

lemma is_vehicle_in_lane_bounds:
  "is_vehicle_in_lane s cx cy = Inr (Some k) \<Longrightarrow> py_iter (lanes s) = Inr ls \<Longrightarrow>
     1 \<le> k \<and> k \<le> length ls"
  by (auto simp: is_vehicle_in_lane_def dest: lanes_loop_bounds)

text \<open>
  Claim C5, as amended. After construction, whatever lane configuration was loaded, the
  lane counts are exactly \<open>{1: 0, 2: 0, 3: 0}\<close>: the counters are fixed at three and are
  not derived from the configured lanes. A lane number the membership test returns is a
  key of the lane counts exactly when it is at most 3; so every lane number it can return
  has a counter when the configuration has at most three lanes, as the built-in default
  has.
\<close>

theorem counters_after_construction:
  assumes "init w = Done (s, w')"
  shows "lane_counts s = [1 \<mapsto> 0, 2 \<mapsto> 0, 3 \<mapsto> 0]
       \<and> dom (lane_counts s) = {1, 2, 3}
       \<and> (is_vehicle_in_lane s cx cy = Inr (Some k) \<longrightarrow> (k \<in> dom (lane_counts s) \<longleftrightarrow> k \<le> 3))
       \<and> (py_iter (lanes s) = Inr ls \<and> length ls \<le> 3 \<and>
            is_vehicle_in_lane s cx cy = Inr (Some k) \<longrightarrow> k \<in> dom (lane_counts s))"
proof -
  have c: "lane_counts s = [1 \<mapsto> 0, 2 \<mapsto> 0, 3 \<mapsto> 0]"
    using init_counts [of w] assms by simp
  have d: "dom (lane_counts s) = {1, 2, 3}" unfolding c by auto
  have "k \<in> dom (lane_counts s) \<longleftrightarrow> k \<le> 3" if "is_vehicle_in_lane s cx cy = Inr (Some k)"
  proof -
    have "1 \<le> k" using that by (rule is_vehicle_in_lane_pos)
    then show ?thesis unfolding d by auto
  qed
  moreover have "k \<in> dom (lane_counts s)"
    if "py_iter (lanes s) = Inr ls" "length ls \<le> 3" "is_vehicle_in_lane s cx cy = Inr (Some k)"
  proof -
    have "1 \<le> k \<and> k \<le> length ls" using that(3,1) by (rule is_vehicle_in_lane_bounds)
    with that(2) show ?thesis unfolding d by auto
  qed
  ultimately show ?thesis using c d by blast
qed

text \<open>The theorem on an analyzer constructed without a configuration file.\<close>

theorem counters_after_construction_witness:
  "init fresh_world = Done (new_analyzer, fresh_world\<lparr>config_file := Stored default_config\<rparr>)
   \<and> lane_counts new_analyzer = [1 \<mapsto> 0, 2 \<mapsto> 0, 3 \<mapsto> 0]
   \<and> py_iter (lanes new_analyzer) =
        Inr [lane_region (100, 720) (500, 400), lane_region (550, 720) (900, 400),
             lane_region (950, 720) (1300, 400)]
   \<and> is_vehicle_in_lane new_analyzer 1000 500 = Inr (Some 3)
   \<and> 3 \<in> dom (lane_counts new_analyzer)"
proof -
  have i: "init fresh_world = Done (new_analyzer, fresh_world\<lparr>config_file := Stored default_config\<rparr>)"
    by (rule init_fresh_world)
  have l: "py_iter (lanes new_analyzer) =
        Inr [lane_region (100, 720) (500, 400), lane_region (550, 720) (900, 400),
             lane_region (950, 720) (1300, 400)]"
    by (simp add: new_analyzer_def default_lanes_def)
  have v: "is_vehicle_in_lane new_analyzer 1000 500 = Inr (Some 3)"
    by (simp add: session_defs)
  from counters_after_construction [OF i, of 1000 500 3] i l v show ?thesis by simp
qed

text \<open>
  The claim as first stated fails for a persisted configuration of four lanes: the
  construction returns, the membership test answers lane 4 for the centroid \<open>(1500, 500)\<close>,
  and lane 4 has no counter.
\<close>

theorem counters_counterexample:
  "init four_lane_world = Done (new_analyzer\<lparr>lanes := four_lanes\<rparr>, four_lane_world)
   \<and> is_vehicle_in_lane (new_analyzer\<lparr>lanes := four_lanes\<rparr>) 1500 500 = Inr (Some 4)
   \<and> lane_counts (new_analyzer\<lparr>lanes := four_lanes\<rparr>) 4 = None"
  by (simp add: session_defs four_lane_world_def four_lanes_def)

lemma init_absent:
  "config_file w = Absent \<Longrightarrow> writable w \<Longrightarrow>
     init w = Done (new_analyzer, w\<lparr>config_file := Stored default_config\<rparr>)"
  by (simp add: init_def load_lane_config_def save_lane_config_def config_of_def
      default_config_def new_analyzer_def)

lemma init_corrupt: "config_file w = Corrupt \<Longrightarrow> init w = Done (new_analyzer, w)"
  by (simp add: init_def load_lane_config_def)

lemma init_no_lanes:
  "config_file w = Stored config \<Longrightarrow> dict_get config ''lanes'' = None \<Longrightarrow>
     init w = Done (new_analyzer, w)"
  by (simp add: init_def load_lane_config_def)

lemma init_lanes_only:
  "config_file w = Stored config \<Longrightarrow> dict_get config ''lanes'' = Some l \<Longrightarrow>
   dict_get config ''target_frame_size'' = None \<Longrightarrow>
     init w = Done (new_analyzer\<lparr>lanes := l\<rparr>, w)"
  by (simp add: init_def load_lane_config_def)

lemma init_lanes_size:
  "config_file w = Stored config \<Longrightarrow> dict_get config ''lanes'' = Some l \<Longrightarrow>
   dict_get config ''target_frame_size'' = Some (JArr [tw, th]) \<Longrightarrow>
     init w = Done (new_analyzer\<lparr>lanes := l, target_width := tw, target_height := th\<rparr>, w)"
  by (simp add: init_def load_lane_config_def unpack2_pair)

text \<open>
  When \<^verbatim>\<open>target_frame_size\<close> is present but is not a pair, the exception is caught after
  the lanes were assigned: the lanes of the file stay, with the default reference size.
\<close>

lemma init_size_not_a_pair:
  "config_file w = Stored config \<Longrightarrow> dict_get config ''lanes'' = Some l \<Longrightarrow>
   dict_get config ''target_frame_size'' = Some target \<Longrightarrow> unpack2 target = Inl e \<Longrightarrow>
     init w = Done (new_analyzer\<lparr>lanes := l\<rparr>, w)"
  by (simp add: init_def load_lane_config_def)

lemma init_present_returns:
  "config_file w \<noteq> Absent \<Longrightarrow> \<exists>s. init w = Done (s, w)"
  by (auto simp: init_def load_lane_config_def
      split: disk_file.splits option.splits sum.splits prod.splits)

lemma default_config_entries:
  "dict_get default_config ''lanes'' = Some default_lanes"
  "dict_get default_config ''target_frame_size'' = Some (JArr [JInt 960, JInt 540])"
  by (simp_all add: default_config_def)

text \<open>
  Claim C6, as amended. The load at construction never raises when the configuration file
  exists, and when the file is absent it returns provided the directory is writable. The
  analyzer ends up with exactly the built-in default, three lanes and the reference size
  960 by 540, when the file is absent, when it cannot be read or parsed, and when its
  document is not an object or has no \<^verbatim>\<open>lanes\<close> entry. When the document has a \<^verbatim>\<open>lanes\<close>
  entry its value is adopted as it is, without validation; the reference size stays the
  default when there is no \<^verbatim>\<open>target_frame_size\<close> entry and is replaced when that entry is
  a pair.
\<close>

theorem load_default_fallback:
  "(config_file w = Absent \<and> writable w \<longrightarrow>
      init w = Done (new_analyzer, w\<lparr>config_file := Stored default_config\<rparr>))
   \<and> (config_file w = Corrupt \<longrightarrow> init w = Done (new_analyzer, w))
   \<and> (config_file w = Stored config \<and> dict_get config ''lanes'' = None \<longrightarrow>
        init w = Done (new_analyzer, w))
   \<and> (config_file w \<noteq> Absent \<longrightarrow> (\<exists>s. init w = Done (s, w)))
   \<and> (config_file w = Stored config \<and> dict_get config ''lanes'' = Some l \<and>
       dict_get config ''target_frame_size'' = None \<longrightarrow>
        init w = Done (new_analyzer\<lparr>lanes := l\<rparr>, w))
   \<and> (config_file w = Stored config \<and> dict_get config ''lanes'' = Some l \<and>
       dict_get config ''target_frame_size'' = Some (JArr [tw, th]) \<longrightarrow>
        init w = Done (new_analyzer\<lparr>lanes := l, target_width := tw, target_height := th\<rparr>, w))
   \<and> lanes new_analyzer = default_lanes
   \<and> py_iter default_lanes =
        Inr [lane_region (100, 720) (500, 400), lane_region (550, 720) (900, 400),
             lane_region (950, 720) (1300, 400)]
   \<and> target_width new_analyzer = JInt 960 \<and> target_height new_analyzer = JInt 540"
proof (intro conjI impI)
  show "lanes new_analyzer = default_lanes" by (simp add: new_analyzer_def)
  show "py_iter default_lanes =
        Inr [lane_region (100, 720) (500, 400), lane_region (550, 720) (900, 400),
             lane_region (950, 720) (1300, 400)]"
    by (simp add: default_lanes_def)
  show "target_width new_analyzer = JInt 960" by (simp add: new_analyzer_def)
  show "target_height new_analyzer = JInt 540" by (simp add: new_analyzer_def)
qed (auto simp: init_absent init_corrupt init_no_lanes init_lanes_only init_lanes_size
      intro: init_present_returns)

text \<open>
  The theorem at five files: an absent one, an unparsable one, a JSON array, an object with
  four lanes and no size, and the default configuration itself.
\<close>

theorem load_default_fallback_witness:
  "config_file fresh_world = Absent \<and> writable fresh_world
   \<and> init fresh_world = Done (new_analyzer, fresh_world\<lparr>config_file := Stored default_config\<rparr>)
   \<and> config_file corrupt_world = Corrupt
   \<and> init corrupt_world = Done (new_analyzer, corrupt_world)
   \<and> config_file no_lanes_world = Stored (JArr [JInt 1, JInt 2])
   \<and> dict_get (JArr [JInt 1, JInt 2]) ''lanes'' = None
   \<and> init no_lanes_world = Done (new_analyzer, no_lanes_world)
   \<and> config_file four_lane_world \<noteq> Absent
   \<and> dict_get (JObj [(''lanes'', four_lanes)]) ''lanes'' = Some four_lanes
   \<and> dict_get (JObj [(''lanes'', four_lanes)]) ''target_frame_size'' = None
   \<and> init (fresh_world\<lparr>config_file := Stored (JObj [(''lanes'', four_lanes)])\<rparr>) =
        Done (new_analyzer\<lparr>lanes := four_lanes\<rparr>,
              fresh_world\<lparr>config_file := Stored (JObj [(''lanes'', four_lanes)])\<rparr>)
   \<and> init (fresh_world\<lparr>config_file := Stored default_config\<rparr>) =
        Done (new_analyzer\<lparr>lanes := default_lanes, target_width := JInt 960,
                target_height := JInt 540\<rparr>,
              fresh_world\<lparr>config_file := Stored default_config\<rparr>)"
proof -
  have a: "config_file fresh_world = Absent \<and> writable fresh_world"
    by (simp add: fresh_world_def)
  have b: "config_file corrupt_world = Corrupt" by (simp add: corrupt_world_def)
  have c: "config_file no_lanes_world = Stored (JArr [JInt 1, JInt 2]) \<and>
      dict_get (JArr [JInt 1, JInt 2]) ''lanes'' = None"
    by (simp add: no_lanes_world_def)
  have d: "config_file four_lane_world \<noteq> Absent" by (simp add: four_lane_world_def)
  let ?w1 = "fresh_world\<lparr>config_file := Stored (JObj [(''lanes'', four_lanes)])\<rparr>"
  have e: "config_file ?w1 = Stored (JObj [(''lanes'', four_lanes)]) \<and>
      dict_get (JObj [(''lanes'', four_lanes)]) ''lanes'' = Some four_lanes \<and>
      dict_get (JObj [(''lanes'', four_lanes)]) ''target_frame_size'' = None"
    by simp
  let ?w2 = "fresh_world\<lparr>config_file := Stored default_config\<rparr>"
  have f: "config_file ?w2 = Stored default_config \<and>
      dict_get default_config ''lanes'' = Some default_lanes \<and>
      dict_get default_config ''target_frame_size'' = Some (JArr [JInt 960, JInt 540])"
    by (simp add: default_config_entries)
  from load_default_fallback [of fresh_world, THEN conjunct1] a
    load_default_fallback [of corrupt_world, THEN conjunct2, THEN conjunct1] b
    load_default_fallback [of no_lanes_world "JArr [JInt 1, JInt 2]", THEN conjunct2, THEN conjunct2, THEN conjunct1] c
    load_default_fallback [of ?w1 "JObj [(''lanes'', four_lanes)]" four_lanes, THEN conjunct2, THEN conjunct2,
       THEN conjunct2, THEN conjunct2, THEN conjunct1] e
    load_default_fallback [of ?w2 default_config default_lanes "JInt 960" "JInt 540", THEN conjunct2, THEN conjunct2,
       THEN conjunct2, THEN conjunct2, THEN conjunct2, THEN conjunct1] f
    d
  show ?thesis by simp
qed

text \<open>
  The claim as first stated fails for the malformed document \<^verbatim>\<open>{"lanes": 5}\<close>: the load
  returns with the lanes set to 5, not to the default, and the membership test then raises
  \<^verbatim>\<open>TypeError\<close>.
\<close>

theorem load_fallback_counterexample:
  "init bad_lanes_world = Done (new_analyzer\<lparr>lanes := JInt 5\<rparr>, bad_lanes_world)
   \<and> lanes (new_analyzer\<lparr>lanes := JInt 5\<rparr>) \<noteq> default_lanes
   \<and> is_vehicle_in_lane (new_analyzer\<lparr>lanes := JInt 5\<rparr>) 300 500 = Inl TypeError"
  by (simp add: init_def load_lane_config_def bad_lanes_world_def default_lanes_def
      is_vehicle_in_lane_def)

lemma cv2_resize_zero:
  "tw = 0 \<or> th = 0 \<Longrightarrow> cv2_resize (JInt tw) (JInt th) = Some Cv2Error"
  by (auto simp: cv2_resize_def)

lemma cv2_resize_returns:
  "cv2_resize tw th = None \<Longrightarrow> \<exists>w h. tw = JInt w \<and> th = JInt h \<and> 0 < w \<and> 0 < h"
  by (auto simp: cv2_resize_def split: json.splits if_splits)

lemma py_truediv_positive: "0 < d \<Longrightarrow> py_truediv a (JInt d) = Inr (round_double (of_int a / of_int d))"
  by (simp add: py_truediv_def ebind_def)

lemma scale_detections_positive:
  "target_width s = JInt w \<Longrightarrow> target_height s = JInt h \<Longrightarrow> 0 < w \<Longrightarrow> 0 < h \<Longrightarrow>
     \<exists>ds. scale_detections s dets = Inr ds"
  by (induction dets) (auto simp: py_truediv_positive ebind_def)

lemma process_frame_zero:
  "target_width s = JInt tw \<Longrightarrow> target_height s = JInt th \<Longrightarrow> tw = 0 \<or> th = 0 \<Longrightarrow>
     process_frame s dets tracks n = Raised Cv2Error s"
  by (simp add: process_frame_def cv2_resize_zero)

text \<open>
  Claim C8, as amended. A reference size with a zero width or height is not rejected at
  construction: the load stores it unchecked and the construction returns. The session
  fails at the first frame it processes: there the resize raises on the zero size, before
  any detection is scaled and before any vehicle is counted, and the state stays as it
  was. The scaling never divides by the zero dimension: whenever the resize returns, both
  dimensions are positive integers and the scaling of the detections returns.
\<close>

theorem zero_reference_size:
  "(config_file w = Stored config \<and> dict_get config ''lanes'' = Some l \<and>
    dict_get config ''target_frame_size'' = Some (JArr [JInt tw, JInt th]) \<and>
    (tw = 0 \<or> th = 0) \<longrightarrow>
      init w = Done (new_analyzer\<lparr>lanes := l, target_width := JInt tw,
                       target_height := JInt th\<rparr>, w))
   \<and> (target_width s = JInt tw \<and> target_height s = JInt th \<and> (tw = 0 \<or> th = 0) \<longrightarrow>
         process_frame s dets tracks n = Raised Cv2Error s)
   \<and> (target_width s = JInt tw \<and> target_height s = JInt th \<and> (tw = 0 \<or> th = 0) \<and>
       video_frames v \<noteq> [] \<longrightarrow>
         process_video s v =
           Raised Cv2Error (s\<lparr>frame_width := video_width v, frame_height := video_height v,
                               fps := video_fps v\<rparr>))
   \<and> (cv2_resize (target_width s) (target_height s) = None \<longrightarrow>
         (\<exists>ds. scale_detections s dets = Inr ds))"
proof (intro conjI impI)
  assume "config_file w = Stored config \<and> dict_get config ''lanes'' = Some l \<and>
    dict_get config ''target_frame_size'' = Some (JArr [JInt tw, JInt th]) \<and>
    (tw = 0 \<or> th = 0)"
  then show "init w = Done (new_analyzer\<lparr>lanes := l, target_width := JInt tw,
                       target_height := JInt th\<rparr>, w)"
    by (simp add: init_lanes_size)
next
  assume "target_width s = JInt tw \<and> target_height s = JInt th \<and> (tw = 0 \<or> th = 0)"
  then show "process_frame s dets tracks n = Raised Cv2Error s"
    by (simp add: process_frame_zero)
next
  assume h: "target_width s = JInt tw \<and> target_height s = JInt th \<and> (tw = 0 \<or> th = 0) \<and>
       video_frames v \<noteq> []"
  let ?s0 = "s\<lparr>frame_width := video_width v, frame_height := video_height v,
                fps := video_fps v\<rparr>"
  obtain f fs where fs: "video_frames v = f # fs" using h by (cases "video_frames v") auto
  have "process_frame ?s0 (fst f) (snd f) (Suc 0) = Raised Cv2Error ?s0"
    using h by (intro process_frame_zero [where tw = tw and th = th]) simp_all
  then show "process_video s v = Raised Cv2Error ?s0"
    by (simp add: process_video_def fs)
next
  assume "cv2_resize (target_width s) (target_height s) = None"
  then obtain w h where "target_width s = JInt w" "target_height s = JInt h" "0 < w" "0 < h"
    using cv2_resize_returns by blast
  then show "\<exists>ds. scale_detections s dets = Inr ds" by (rule scale_detections_positive)
qed

text \<open>
  The theorem at a persisted reference size of 0 by 540, a frame with one car and one
  vehicle in lane 1, and the default size.
\<close>

theorem zero_reference_size_witness:
  "dict_get (JObj [(''lanes'', default_lanes),
         (''description'', JStr ''Lane coordinates for traffic flow analysis''),
         (''target_frame_size'', JArr [JInt 0, JInt 540])]) ''lanes'' = Some default_lanes
   \<and> init zero_width_world =
       Done (new_analyzer\<lparr>target_width := JInt 0\<rparr>, zero_width_world)
   \<and> process_frame (new_analyzer\<lparr>target_width := JInt 0\<rparr>) [car] [track_A1] 1
       = Raised Cv2Error (new_analyzer\<lparr>target_width := JInt 0\<rparr>)
   \<and> video_frames one_car_video \<noteq> []
   \<and> process_video (new_analyzer\<lparr>target_width := JInt 0\<rparr>) one_car_video
       = Raised Cv2Error (new_analyzer\<lparr>target_width := JInt 0, frame_width := 1280,
           frame_height := 720, fps := 30\<rparr>)
   \<and> cv2_resize (target_width new_analyzer) (target_height new_analyzer) = None
   \<and> scale_detections (new_analyzer\<lparr>frame_width := 1280, frame_height := 720\<rparr>) [car]
       = Inr [(car, round_double (1280 / 960), round_double (720 / 540))]"
proof -
  let ?c = "JObj [(''lanes'', default_lanes),
         (''description'', JStr ''Lane coordinates for traffic flow analysis''),
         (''target_frame_size'', JArr [JInt 0, JInt 540])]"
  let ?s = "new_analyzer\<lparr>target_width := JInt 0\<rparr>"
  have a: "config_file zero_width_world = Stored ?c \<and> dict_get ?c ''lanes'' = Some default_lanes \<and>
    dict_get ?c ''target_frame_size'' = Some (JArr [JInt 0, JInt 540]) \<and>
    ((0::int) = 0 \<or> (540::int) = 0)"
    by (simp add: zero_width_world_def)
  have b: "target_width ?s = JInt 0 \<and> target_height ?s = JInt 540 \<and>
    ((0::int) = 0 \<or> (540::int) = 0)"
    by (simp add: new_analyzer_def)
  have v: "video_frames one_car_video \<noteq> []" by (simp add: one_car_video_def)
  have r: "cv2_resize (target_width new_analyzer) (target_height new_analyzer) = None"
    by (simp add: new_analyzer_def cv2_resize_def)
  have d: "scale_detections (new_analyzer\<lparr>frame_width := 1280, frame_height := 720\<rparr>) [car]
       = Inr [(car, round_double (1280 / 960), round_double (720 / 540))]"
    by (simp add: new_analyzer_def car_def vehicle_classes_def py_truediv_def ebind_def)
  from zero_reference_size [where w = zero_width_world and config = ?c and l = default_lanes
      and tw = 0 and th = 540 and s = ?s and dets = "[car]" and tracks = "[track_A1]" and n = 1
      and v = one_car_video] a b v
  have "init zero_width_world =
        Done (new_analyzer\<lparr>lanes := default_lanes, target_width := JInt 0,
                target_height := JInt 540\<rparr>, zero_width_world)"
    and "process_frame ?s [car] [track_A1] 1 = Raised Cv2Error ?s"
    and "process_video ?s one_car_video =
           Raised Cv2Error (?s\<lparr>frame_width := video_width one_car_video,
             frame_height := video_height one_car_video, fps := video_fps one_car_video\<rparr>)"
    by blast+
  with a v r d show ?thesis by (simp add: new_analyzer_def one_car_video_def)
qed

text \<open>
  The claim as first stated fails for a persisted reference size of 0 by 540: the
  construction returns, with the zero width stored.
\<close>

theorem zero_reference_size_counterexample:
  "init zero_width_world = Done (new_analyzer\<lparr>target_width := JInt 0\<rparr>, zero_width_world)
   \<and> target_width (new_analyzer\<lparr>target_width := JInt 0\<rparr>) = JInt 0"
  by (simp add: init_def load_lane_config_def zero_width_world_def unpack2_pair new_analyzer_def)

text \<open>
  Claim C10. When the configuration file is absent and the directory is writable, the load
  does not only keep the fields in memory: it writes the configuration of the analyzer to
  the file. At construction that is the default configuration, with the three default
  lanes, the description and the reference size 960 by 540. The file then exists, and a
  second construction reads it, takes the branch for a present file and arrives at the
  same analyzer.
\<close>

theorem load_writes_default:
  "(config_file w = Absent \<and> writable w \<longrightarrow>
      load_lane_config s w = Done (s, w\<lparr>config_file := Stored (config_of s)\<rparr>)
      \<and> init w = Done (new_analyzer, w\<lparr>config_file := Stored default_config\<rparr>)
      \<and> config_file (w\<lparr>config_file := Stored default_config\<rparr>) \<noteq> Absent
      \<and> init (w\<lparr>config_file := Stored default_config\<rparr>) =
          Done (new_analyzer, w\<lparr>config_file := Stored default_config\<rparr>))
   \<and> config_of new_analyzer = default_config
   \<and> default_config =
       JObj [(''lanes'', JArr [lane_region (100, 720) (500, 400),
                               lane_region (550, 720) (900, 400),
                               lane_region (950, 720) (1300, 400)]),
             (''description'', JStr ''Lane coordinates for traffic flow analysis''),
             (''target_frame_size'', JArr [JInt 960, JInt 540])]"
proof (intro conjI impI)
  assume h: "config_file w = Absent \<and> writable w"
  then show "load_lane_config s w = Done (s, w\<lparr>config_file := Stored (config_of s)\<rparr>)"
    by (simp add: load_lane_config_def save_lane_config_def)
  from h show "init w = Done (new_analyzer, w\<lparr>config_file := Stored default_config\<rparr>)"
    by (simp add: init_absent)
  show "config_file (w\<lparr>config_file := Stored default_config\<rparr>) \<noteq> Absent" by simp
  have "init (w\<lparr>config_file := Stored default_config\<rparr>) =
      Done (new_analyzer\<lparr>lanes := default_lanes, target_width := JInt 960,
              target_height := JInt 540\<rparr>, w\<lparr>config_file := Stored default_config\<rparr>)"
    by (rule init_lanes_size [where config = default_config]) (simp_all add: default_config_entries)
  then show "init (w\<lparr>config_file := Stored default_config\<rparr>) =
          Done (new_analyzer, w\<lparr>config_file := Stored default_config\<rparr>)"
    by (simp add: new_analyzer_def)
next
  show "config_of new_analyzer = default_config"
    by (simp add: config_of_def default_config_def new_analyzer_def)
  show "default_config =
       JObj [(''lanes'', JArr [lane_region (100, 720) (500, 400),
                               lane_region (550, 720) (900, 400),
                               lane_region (950, 720) (1300, 400)]),
             (''description'', JStr ''Lane coordinates for traffic flow analysis''),
             (''target_frame_size'', JArr [JInt 960, JInt 540])]"
    by (simp add: default_config_def default_lanes_def)
qed

text \<open>The theorem in a writable directory without a configuration file.\<close>

theorem load_writes_default_witness:
  "config_file fresh_world = Absent \<and> writable fresh_world
   \<and> init fresh_world = Done (new_analyzer, fresh_world\<lparr>config_file := Stored default_config\<rparr>)
   \<and> init (fresh_world\<lparr>config_file := Stored default_config\<rparr>) =
          Done (new_analyzer, fresh_world\<lparr>config_file := Stored default_config\<rparr>)"
proof -
  have a: "config_file fresh_world = Absent \<and> writable fresh_world"
    by (simp add: fresh_world_def)
  from load_writes_default [of fresh_world new_analyzer, THEN conjunct1] a
  show ?thesis by simp
qed

section \<open>Event timestamps\<close>

lemma two_vehicle_run:
  "output_data (state_of (process_video new_analyzer two_vehicle_video)) =
     [\<lparr>VehicleID = ''A'', Lane = 1, Frame = 1, Timestamp = ''00:00:00''\<rparr>,
      \<lparr>VehicleID = ''D'', Lane = 1, Frame = 2, Timestamp = ''00:00:00''\<rparr>]"
  by (simp add: session_defs two_vehicle_video_def track_A1_def track_D_def)

lemma film_run:
  "output_data (run (new_analyzer\<lparr>fps := film_rate\<rparr>) [(track_A1, 72000)]) =
     [\<lparr>VehicleID = ''A'', Lane = 1, Frame = 72000, Timestamp = ''00:50:03''\<rparr>]"
  by (simp add: session_defs timestamp_film track_A1_def)

lemma float_quotients_differ: "float_truediv 1 30 \<noteq> float_truediv 2 30"
  by code_simp

text \<open>
  Claim C7, as amended. Every event recorded while a video is processed, starting from an
  empty log, carries as its timestamp not the quotient of its frame number and the frame
  rate but the string \<^verbatim>\<open>HH:MM:SS\<close> of that quotient, as the floating-point division
  gives it, rounded down to whole seconds and taken as a time of day; the frame rate is
  then not zero. The same holds for every sequence of observations.
\<close>

theorem event_timestamps:
  "(output_data s = [] \<longrightarrow>
      (\<forall>e \<in> set (output_data (state_of (process_video s v))).
         video_fps v \<noteq> 0 \<and>
         Timestamp e = strftime_HMS \<lfloor>float_truediv (int (Frame e)) (video_fps v)\<rfloor>))
   \<and> (output_data s = [] \<longrightarrow>
      (\<forall>e \<in> set (output_data (run s obs)).
         fps s \<noteq> 0 \<and> Timestamp e = strftime_HMS \<lfloor>float_truediv (int (Frame e)) (fps s)\<rfloor>))"
proof (intro conjI impI)
  assume empty: "output_data s = []"
  let ?s0 = "s\<lparr>frame_width := video_width v, frame_height := video_height v,
              fps := video_fps v\<rparr>"
  obtain obs' where "state_of (process_video s v) = run ?s0 obs'"
    using process_video_run [of v s] by blast
  moreover have "stamped (fps ?s0) (output_data ?s0)" using empty by (simp add: stamped_def)
  then have "stamped (fps ?s0) (output_data (run ?s0 obs'))" by (rule run_stamped)
  ultimately have "stamped (video_fps v) (output_data (state_of (process_video s v)))" by simp
  then show "\<forall>e \<in> set (output_data (state_of (process_video s v))).
         video_fps v \<noteq> 0 \<and>
         Timestamp e = strftime_HMS \<lfloor>float_truediv (int (Frame e)) (video_fps v)\<rfloor>"
    by (simp add: stamped_def list_all_iff)
next
  assume empty: "output_data s = []"
  then have "stamped (fps s) (output_data s)" by (simp add: stamped_def)
  then have "stamped (fps s) (output_data (run s obs))" by (rule run_stamped)
  then show "\<forall>e \<in> set (output_data (run s obs)).
         fps s \<noteq> 0 \<and> Timestamp e = strftime_HMS \<lfloor>float_truediv (int (Frame e)) (fps s)\<rfloor>"
    by (simp add: stamped_def list_all_iff)
qed

text \<open>
  The theorem on a 30 fps video with vehicle A in frame 1 and vehicle D in frame 2, and on
  an observation in frame 72000 at the film rate, where the floating-point quotient is
  3003 seconds and the exact one is less.
\<close>

theorem event_timestamps_witness:
  "output_data new_analyzer = []
   \<and> output_data (state_of (process_video new_analyzer two_vehicle_video)) =
       [\<lparr>VehicleID = ''A'', Lane = 1, Frame = 1, Timestamp = ''00:00:00''\<rparr>,
        \<lparr>VehicleID = ''D'', Lane = 1, Frame = 2, Timestamp = ''00:00:00''\<rparr>]
   \<and> video_fps two_vehicle_video \<noteq> 0
   \<and> Timestamp \<lparr>VehicleID = ''D'', Lane = 1, Frame = 2, Timestamp = ''00:00:00''\<rparr> =
       strftime_HMS \<lfloor>float_truediv (int (Frame \<lparr>VehicleID = ''D'', Lane = 1, Frame = 2,
         Timestamp = ''00:00:00''\<rparr>)) (video_fps two_vehicle_video)\<rfloor>
   \<and> output_data (new_analyzer\<lparr>fps := film_rate\<rparr>) = []
   \<and> output_data (run (new_analyzer\<lparr>fps := film_rate\<rparr>) [(track_A1, 72000)]) =
       [\<lparr>VehicleID = ''A'', Lane = 1, Frame = 72000, Timestamp = ''00:50:03''\<rparr>]
   \<and> Timestamp \<lparr>VehicleID = ''A'', Lane = 1, Frame = 72000, Timestamp = ''00:50:03''\<rparr> =
       strftime_HMS \<lfloor>float_truediv (int (Frame \<lparr>VehicleID = ''A'', Lane = 1, Frame = 72000,
         Timestamp = ''00:50:03''\<rparr>)) (fps (new_analyzer\<lparr>fps := film_rate\<rparr>))\<rfloor>
   \<and> \<lfloor>float_truediv 72000 film_rate\<rfloor> = 3003
   \<and> \<lfloor>72000 / film_rate\<rfloor> = 3002"
proof -
  let ?out = "output_data (state_of (process_video new_analyzer two_vehicle_video))"
  let ?d = "\<lparr>VehicleID = ''D'', Lane = 1, Frame = 2, Timestamp = ''00:00:00''\<rparr>"
  let ?sf = "new_analyzer\<lparr>fps := film_rate\<rparr>"
  let ?a = "\<lparr>VehicleID = ''A'', Lane = 1, Frame = 72000, Timestamp = ''00:50:03''\<rparr>"
  have e: "output_data new_analyzer = []" by (simp add: new_analyzer_def)
  have o: "?out = [\<lparr>VehicleID = ''A'', Lane = 1, Frame = 1, Timestamp = ''00:00:00''\<rparr>, ?d]"
    by (rule two_vehicle_run)
  have m: "?d \<in> set ?out" unfolding o by simp
  have r: "video_fps two_vehicle_video \<noteq> 0 \<and>
      Timestamp ?d = strftime_HMS \<lfloor>float_truediv (int (Frame ?d)) (video_fps two_vehicle_video)\<rfloor>"
    by (rule event_timestamps [of new_analyzer two_vehicle_video, THEN conjunct1, rule_format,
          OF e m])
  have ef: "output_data ?sf = []" by (simp add: new_analyzer_def)
  have of: "output_data (run ?sf [(track_A1, 72000)]) = [?a]" by (rule film_run)
  have mf: "?a \<in> set (output_data (run ?sf [(track_A1, 72000)]))" unfolding of by simp
  have rf: "fps ?sf \<noteq> 0 \<and>
      Timestamp ?a = strftime_HMS \<lfloor>float_truediv (int (Frame ?a)) (fps ?sf)\<rfloor>"
    by (rule event_timestamps [where s = ?sf and obs = "[(track_A1, 72000)]", THEN conjunct2, rule_format,
          OF ef mf])
  show ?thesis
    by (intro conjI e o r [THEN conjunct1] r [THEN conjunct2] ef of rf [THEN conjunct2]
        float_seconds_film exact_seconds_film)
qed

text \<open>
  The claim as first stated fails on that video: the events of frames 1 and 2 carry the
  same timestamp, the string \<^verbatim>\<open>00:00:00\<close>, while the quotients of their frame numbers and
  the frame rate differ, the exact ones and the floating-point ones.
\<close>

theorem event_timestamps_counterexample:
  "map Frame (output_data (state_of (process_video new_analyzer two_vehicle_video))) = [1, 2]
   \<and> map Timestamp (output_data (state_of (process_video new_analyzer two_vehicle_video)))
       = [''00:00:00'', ''00:00:00'']
   \<and> video_fps two_vehicle_video = 30
   \<and> (of_nat 1 :: rat) / 30 \<noteq> of_nat 2 / 30
   \<and> float_truediv 1 30 \<noteq> float_truediv 2 30"
  unfolding two_vehicle_run using float_quotients_differ by (simp add: two_vehicle_video_def)

section \<open>Flushing the event log\<close>

lemma save_results_writable:
  "writable w \<Longrightarrow> output_csv (state_of (save_results s w)) = Some (output_data s)"
  by (simp add: save_results_def save_lane_config_def Let_def)

lemma save_results_twice: "save_results s (state_of (save_results s w)) = save_results s w"
  by (simp add: save_results_def save_lane_config_def Let_def)

lemma save_results_done:
  "writable w \<Longrightarrow> lane_counts s 1 \<noteq> None \<Longrightarrow> lane_counts s 2 \<noteq> None \<Longrightarrow>
   lane_counts s 3 \<noteq> None \<Longrightarrow>
     save_results s w =
       Done (w\<lparr>output_csv := Some (output_data s), config_file := Stored (config_of s)\<rparr>)"
  by (simp add: save_results_def save_lane_config_def Let_def)

text \<open>
  Claim C9. In a writable directory, saving the results writes the rows of the event log to
  the output file in list order, none dropped and none moved, and returns when the three
  lane counters exist. Saving again from the world the first call left gives the same
  outcome, so the file holds the same rows after the second call. The list order is the
  order of counting: observations and videos only ever append to the log.
\<close>

theorem flush_idempotent:
  "(writable w \<longrightarrow> output_csv (state_of (save_results s w)) = Some (output_data s))
   \<and> (writable w \<and> lane_counts s 1 \<noteq> None \<and> lane_counts s 2 \<noteq> None \<and>
       lane_counts s 3 \<noteq> None \<longrightarrow>
        save_results s w =
          Done (w\<lparr>output_csv := Some (output_data s), config_file := Stored (config_of s)\<rparr>))
   \<and> save_results s (state_of (save_results s w)) = save_results s w
   \<and> (\<exists>es. output_data (run s obs) = output_data s @ es)
   \<and> (\<exists>es. output_data (state_of (process_video s v)) = output_data s @ es)"
proof (intro conjI impI)
  assume "writable w"
  then show "output_csv (state_of (save_results s w)) = Some (output_data s)"
    by (rule save_results_writable)
next
  assume "writable w \<and> lane_counts s 1 \<noteq> None \<and> lane_counts s 2 \<noteq> None \<and>
       lane_counts s 3 \<noteq> None"
  then show "save_results s w =
          Done (w\<lparr>output_csv := Some (output_data s), config_file := Stored (config_of s)\<rparr>)"
    by (simp add: save_results_done)
next
  show "save_results s (state_of (save_results s w)) = save_results s w"
    by (rule save_results_twice)
next
  show "\<exists>es. output_data (run s obs) = output_data s @ es" by (rule run_appends)
next
  let ?s0 = "s\<lparr>frame_width := video_width v, frame_height := video_height v,
              fps := video_fps v\<rparr>"
  obtain obs' where "state_of (process_video s v) = run ?s0 obs'"
    using process_video_run [of v s] by blast
  moreover obtain es where "output_data (run ?s0 obs') = output_data ?s0 @ es"
    using run_appends [of ?s0 obs'] by blast
  ultimately have "output_data (state_of (process_video s v)) = output_data s @ es" by simp
  then show "\<exists>es. output_data (state_of (process_video s v)) = output_data s @ es" by blast
qed

text \<open>The theorem after the two-vehicle video, saved twice.\<close>

theorem flush_idempotent_witness:
  "writable fresh_world
   \<and> output_csv (state_of (save_results
        (state_of (process_video new_analyzer two_vehicle_video)) fresh_world)) =
       Some [\<lparr>VehicleID = ''A'', Lane = 1, Frame = 1, Timestamp = ''00:00:00''\<rparr>,
             \<lparr>VehicleID = ''D'', Lane = 1, Frame = 2, Timestamp = ''00:00:00''\<rparr>]
   \<and> output_csv (state_of (save_results
        (state_of (process_video new_analyzer two_vehicle_video))
        (state_of (save_results
          (state_of (process_video new_analyzer two_vehicle_video)) fresh_world)))) =
       Some [\<lparr>VehicleID = ''A'', Lane = 1, Frame = 1, Timestamp = ''00:00:00''\<rparr>,
             \<lparr>VehicleID = ''D'', Lane = 1, Frame = 2, Timestamp = ''00:00:00''\<rparr>]"
proof -
  let ?s = "state_of (process_video new_analyzer two_vehicle_video)"
  have w: "writable fresh_world" by (simp add: fresh_world_def)
  have one: "output_csv (state_of (save_results ?s fresh_world)) = Some (output_data ?s)"
    using flush_idempotent [of fresh_world ?s] w by blast
  have two: "save_results ?s (state_of (save_results ?s fresh_world)) = save_results ?s fresh_world"
    using flush_idempotent [of fresh_world ?s] by blast
  show ?thesis unfolding two using w one by (simp add: two_vehicle_run)
qed

end
